theory Spec2Isabelle
  imports Main
begin

section \<open>JavaScript values used by the program\<close>

text \<open>
  The program is a chain of promises over an AWS client. A rejected promise is the
  left summand of a sum, a fulfilled one the right. \<open>Error msg\<close> is the
  JavaScript \<open>new Error(msg)\<close> thrown by the program itself, \<open>TypeError\<close> is
  what the engine throws when a property of \<open>undefined\<close> is read or written, and
  \<open>AwsError\<close> is a failure reported by a query of the control plane.
\<close>

datatype error = Error string | TypeError | AwsError string

definition andThen :: "error + 'a \<Rightarrow> ('a \<Rightarrow> error + 'b) \<Rightarrow> error + 'b" where
  "andThen p f = (case p of Inl e \<Rightarrow> Inl e | Inr x \<Rightarrow> f x)"

text \<open>
  \<open>Promise.all\<close> over two promises: it is fulfilled with both values, and rejected
  with the error of whichever promise is rejected first. Which of two failing queries
  settles first is decided by the network, so it is a parameter.
\<close>

definition Promise_all :: "bool \<Rightarrow> error + 'a \<Rightarrow> error + 'b \<Rightarrow> error + ('a \<times> 'b)" where
  "Promise_all firstSettlesFirst p q =
     (case p of
        Inr x \<Rightarrow> (case q of Inr y \<Rightarrow> Inr (x, y) | Inl e \<Rightarrow> Inl e)
      | Inl e \<Rightarrow> (case q of Inr y \<Rightarrow> Inl e | Inl e' \<Rightarrow> Inl (if firstSettlesFirst then e else e')))"

text \<open>Truthiness of an optional string and of an optional number.\<close>

definition truthy_string :: "string option \<Rightarrow> bool" where
  "truthy_string s = (case s of None \<Rightarrow> False | Some x \<Rightarrow> x \<noteq> [])"

definition truthy_number :: "nat option \<Rightarrow> bool" where
  "truthy_number n = (case n of None \<Rightarrow> False | Some x \<Rightarrow> x \<noteq> 0)"

text \<open>String conversion, as done by \<open>+\<close> on a string and another value.\<close>

definition digit_char :: "nat \<Rightarrow> char" where
  "digit_char d = ''0123456789'' ! d"

fun string_of_number :: "nat \<Rightarrow> string" where
  "string_of_number n =
     (if n < 10 then [digit_char n] else string_of_number (n div 10) @ [digit_char (n mod 10)])"

definition string_of_value :: "string option \<Rightarrow> string" where
  "string_of_value v = (case v of None \<Rightarrow> ''undefined'' | Some s \<Rightarrow> s)"

text \<open>
  A JavaScript \<open>Map\<close> keeps its entries in insertion order; \<open>set\<close> on a key that
  is present replaces the value where the entry stands, and appends otherwise.
\<close>

fun Map_set :: "'k \<Rightarrow> 'v \<Rightarrow> ('k \<times> 'v) list \<Rightarrow> ('k \<times> 'v) list" where
  "Map_set k v [] = [(k, v)]"
| "Map_set k v ((k', v') # rest) =
     (if k' = k then (k, v) # rest else (k', v') # Map_set k v rest)"

fun Map_get :: "('k \<times> 'v) list \<Rightarrow> 'k \<Rightarrow> 'v option" where
  "Map_get [] k = None"
| "Map_get ((k', v') # rest) k = (if k' = k then Some v' else Map_get rest k)"

definition Map_keys :: "('k \<times> 'v) list \<Rightarrow> 'k list" where
  "Map_keys m = map fst m"

definition Map_values :: "('k \<times> 'v) list \<Rightarrow> 'v list" where
  "Map_values m = map snd m"

section \<open>Responses of the control plane\<close>

record stackResource =
  LogicalResourceId :: string
  PhysicalResourceId :: string
  ResourceType :: string

record parameter =
  ParameterKey :: string
  ParameterValue :: string

record stack =
  Parameters :: "parameter list"

record networkBinding =
  containerPort :: nat
  hostPort :: nat

record container =
  networkBindings :: "networkBinding list option"

record containerOverride =
  name :: string

text \<open>\<open>containerOverrides\<close> is the field \<open>overrides.containerOverrides\<close> of a task.\<close>

record task =
  containerInstanceArn :: string
  containers :: "container list"
  containerOverrides :: "containerOverride list"

record containerInstance =
  ci_containerInstanceArn :: string
  ec2InstanceId :: string

record ipv6Address =
  Ipv6Address :: string

record networkInterface =
  Ipv6Addresses :: "ipv6Address list option"

record ec2Instance =
  InstanceId :: string
  PublicIpAddress :: "string option"
  NetworkInterfaces :: "networkInterface list"

record reservation =
  Instances :: "ec2Instance list"

text \<open>The clients \<open>cf\<close>, \<open>ecs\<close> and \<open>ec2\<close>: one function per query.\<close>

record aws =
  describeStackResources :: "string \<Rightarrow> string option \<Rightarrow> error + stackResource list"
  describeStacks :: "string \<Rightarrow> error + stack list"
  listTasks :: "string \<Rightarrow> string \<Rightarrow> error + string list"
  describeTasks :: "string \<Rightarrow> string list \<Rightarrow> error + task list"
  describeContainerInstances :: "string list \<Rightarrow> string \<Rightarrow> error + containerInstance list"
  describeInstances :: "string option list \<Rightarrow> error + reservation list"
  serviceSettlesFirst :: bool

section \<open>The resolvers\<close>

fun firstService :: "stackResource list \<Rightarrow> error + string" where
  "firstService [] = Inl (Error ''Service not found'')"
| "firstService (resource # rest) =
     (if ResourceType resource = ''AWS::ECS::Service'' then Inr (PhysicalResourceId resource)
      else firstService rest)"

definition getServiceName_then :: "string option \<Rightarrow> stackResource list \<Rightarrow> error + string" where
  "getServiceName_then serviceName StackResources =
     (if truthy_string serviceName \<and> length StackResources = 0 then Inl (Error ''Service not found'')
      else if truthy_string serviceName then
        (case StackResources of r # _ \<Rightarrow> Inr (PhysicalResourceId r) | [] \<Rightarrow> Inl TypeError)
      else firstService StackResources)"

definition getServiceName :: "aws \<Rightarrow> string \<Rightarrow> string option \<Rightarrow> error + string" where
  "getServiceName env serviceStackName serviceName =
     andThen (describeStackResources env serviceStackName
              (if truthy_string serviceName then serviceName else None))
       (getServiceName_then serviceName)"

text \<open>The loop of \<open>getClusterStackName\<close>: it stops at the first parameter with the key.\<close>

fun findClusterStackName :: "parameter list \<Rightarrow> string option" where
  "findClusterStackName [] = None"
| "findClusterStackName (param # rest) =
     (if ParameterKey param = ''ClusterStackName'' then Some (ParameterValue param)
      else findClusterStackName rest)"

definition getClusterStackName_then :: "stack list \<Rightarrow> error + string" where
  "getClusterStackName_then Stacks =
     (case Stacks of
        [] \<Rightarrow> Inl (Error ''Stack not found'')
      | s # _ \<Rightarrow>
          (let clusterStackName = findClusterStackName (Parameters s)
           in if truthy_string clusterStackName then Inr (the clusterStackName)
              else Inl (Error ''Cluster stack parameter not found'')))"

definition getClusterStackName :: "aws \<Rightarrow> string \<Rightarrow> error + string" where
  "getClusterStackName env serviceStackName =
     andThen (describeStacks env serviceStackName) getClusterStackName_then"

definition getClusterName_then :: "stackResource list \<Rightarrow> error + string" where
  "getClusterName_then StackResources =
     (case StackResources of
        [] \<Rightarrow> Inl (Error ''Cluster stack not found'')
      | r # _ \<Rightarrow> Inr (PhysicalResourceId r))"

definition getClusterName :: "aws \<Rightarrow> string \<Rightarrow> error + string" where
  "getClusterName env clusterStackName =
     andThen (describeStackResources env clusterStackName (Some ''cluster'')) getClusterName_then"

text \<open>The error kinds of the specification, as sets of the messages the program throws.\<close>

definition NotFound :: "error \<Rightarrow> bool" where
  "NotFound e = (e = Error ''Service not found'' \<or> e = Error ''Stack not found''
                 \<or> e = Error ''Cluster stack not found'')"

definition ConfigMissing :: error where
  "ConfigMissing = Error ''Cluster stack parameter not found''"

definition NoAddress :: error where
  "NoAddress = Error ''No IPv6 address''"

section \<open>The aggregation of bindings by host\<close>

record legend =
  containerName :: string
  legend_containerPort :: nat

record containerInstanceRequest =
  ports :: "(nat \<times> nat) list"
  byHostPort :: "(nat \<times> legend) list"
  instanceId :: "string option"
  ipAddress :: "string option"

type_synonym hostGroups = "(string \<times> containerInstanceRequest) list"

definition newRequest :: containerInstanceRequest where
  "newRequest = \<lparr>ports = [], byHostPort = [], instanceId = None, ipAddress = None\<rparr>"

text \<open>The condition on the allow-set; a \<open>Set\<close> object is truthy even when empty.\<close>

definition retained :: "nat set option \<Rightarrow> networkBinding \<Rightarrow> bool" where
  "retained containerPorts binding =
     (case containerPorts of
        Some s \<Rightarrow> containerPort binding \<in> s
      | None \<Rightarrow> True)"

text \<open>The body of the innermost loop once the condition holds.\<close>

definition trackBinding ::
  "string \<Rightarrow> string \<Rightarrow> networkBinding \<Rightarrow> hostGroups \<Rightarrow> hostGroups" where
  "trackBinding arn cname binding containerInstances =
     (let request = (case Map_get containerInstances arn of Some r \<Rightarrow> r | None \<Rightarrow> newRequest);
          request1 = request\<lparr>ports :=
            Map_set (containerPort binding) (hostPort binding) (ports request)\<rparr>;
          request2 = request1\<lparr>byHostPort :=
            Map_set (hostPort binding)
              \<lparr>containerName = cname, legend_containerPort = containerPort binding\<rparr>
              (byHostPort request1)\<rparr>
      in Map_set arn request2 containerInstances)"

fun bindingsLoop ::
  "nat set option \<Rightarrow> string \<Rightarrow> string \<Rightarrow> networkBinding list \<Rightarrow> hostGroups \<Rightarrow> hostGroups" where
  "bindingsLoop containerPorts arn cname [] containerInstances = containerInstances"
| "bindingsLoop containerPorts arn cname (binding # rest) containerInstances =
     bindingsLoop containerPorts arn cname rest
       (if retained containerPorts binding
        then trackBinding arn cname binding containerInstances
        else containerInstances)"

text \<open>
  The loop over the container index \<open>j\<close>. Reading \<open>name\<close> of
  \<open>containerOverrides[j]\<close> beyond the end of the list throws a \<open>TypeError\<close>.
\<close>

function containersLoop ::
  "nat set option \<Rightarrow> task \<Rightarrow> nat \<Rightarrow> hostGroups \<Rightarrow> error + hostGroups" where
  "containersLoop containerPorts t j containerInstances =
     (if j < length (containers t) then
        (if j < length (containerOverrides t) then
           containersLoop containerPorts t (j + 1)
             (case networkBindings (containers t ! j) of
                Some bindings \<Rightarrow>
                  bindingsLoop containerPorts (containerInstanceArn t)
                    (name (containerOverrides t ! j)) bindings containerInstances
              | None \<Rightarrow> containerInstances)
         else Inl TypeError)
      else Inr containerInstances)"
  by pat_completeness auto
termination
  by (relation "measure (\<lambda>(cps, t, j, cis). length (containers t) - j)") auto

declare containersLoop.simps [simp del]

fun tasksLoop :: "nat set option \<Rightarrow> task list \<Rightarrow> hostGroups \<Rightarrow> error + hostGroups" where
  "tasksLoop containerPorts [] containerInstances = Inr containerInstances"
| "tasksLoop containerPorts (t # rest) containerInstances =
     andThen (containersLoop containerPorts t 0 containerInstances)
       (tasksLoop containerPorts rest)"

definition aggregate :: "nat set option \<Rightarrow> task list \<Rightarrow> error + hostGroups" where
  "aggregate containerPorts tasks = tasksLoop containerPorts tasks []"

section \<open>Hosts, addresses and output\<close>

fun setInstanceIds :: "containerInstance list \<Rightarrow> hostGroups \<Rightarrow> error + hostGroups" where
  "setInstanceIds [] containerInstances = Inr containerInstances"
| "setInstanceIds (ci # rest) containerInstances =
     (case Map_get containerInstances (ci_containerInstanceArn ci) of
        None \<Rightarrow> Inl TypeError
      | Some request \<Rightarrow>
          setInstanceIds rest
            (Map_set (ci_containerInstanceArn ci)
               (request\<lparr>instanceId := Some (ec2InstanceId ci)\<rparr>) containerInstances))"

type_synonym instanceIps = "(string \<times> string option) list"

definition instanceAddress :: "bool \<Rightarrow> ec2Instance \<Rightarrow> error + string option" where
  "instanceAddress ipv6 i =
     (if ipv6 then
        (case NetworkInterfaces i of
           [] \<Rightarrow> Inl TypeError
         | ni # _ \<Rightarrow>
             (case Ipv6Addresses ni of
                None \<Rightarrow> Inl (Error ''No IPv6 address'')
              | Some [] \<Rightarrow> Inl (Error ''No IPv6 address'')
              | Some (a # _) \<Rightarrow> Inr (Some (Ipv6Address a))))
      else Inr (PublicIpAddress i))"

fun instancesLoop :: "bool \<Rightarrow> ec2Instance list \<Rightarrow> instanceIps \<Rightarrow> error + instanceIps" where
  "instancesLoop ipv6 [] ips = Inr ips"
| "instancesLoop ipv6 (i # rest) ips =
     andThen (instanceAddress ipv6 i)
       (\<lambda>a. instancesLoop ipv6 rest (Map_set (InstanceId i) a ips))"

fun reservationsLoop :: "bool \<Rightarrow> reservation list \<Rightarrow> instanceIps \<Rightarrow> error + instanceIps" where
  "reservationsLoop ipv6 [] ips = Inr ips"
| "reservationsLoop ipv6 (r # rest) ips =
     andThen (instancesLoop ipv6 (Instances r) ips) (reservationsLoop ipv6 rest)"

text \<open>\<open>instanceIps.get(v.instanceId)\<close>, where both the key and the value may be undefined.\<close>

definition getIp :: "instanceIps \<Rightarrow> string option \<Rightarrow> string option" where
  "getIp ips iid =
     (case iid of
        None \<Rightarrow> None
      | Some k \<Rightarrow> (case Map_get ips k of None \<Rightarrow> None | Some a \<Rightarrow> a))"

text \<open>
  \<open>port++\<close>. The counter is a JavaScript number, an IEEE-754 double, here holding a
  non-negative integer. Adding one is exact below \<open>2^53\<close>. From \<open>2^53\<close> to \<open>2^54\<close>
  the doubles are the even integers, the sum lies half-way between two of them and is
  rounded to the one whose significand is even; from \<open>2^54\<close> on the sum is rounded
  back to the number itself. The argument is meant to be a number that a double holds:
  every integer up to \<open>2^53\<close>, the even ones up to \<open>2^54\<close>.
\<close>

definition increment :: "nat \<Rightarrow> nat" where
  "increment n =
     (if n < 2 ^ 53 then n + 1
      else if n < 2 ^ 54 then (if even (n div 2) then n else n + 2)
      else n)"

text \<open>The inner \<open>forEach\<close> over \<open>ports\<close>: the state is the line and the port counter.\<close>

fun portsForEach :: "(nat \<times> nat) list \<Rightarrow> string \<times> nat \<Rightarrow> string \<times> nat" where
  "portsForEach [] (str, port) = (str, port)"
| "portsForEach ((k, v) # rest) (str, port) =
     portsForEach rest
       (str @ '' -L'' @ string_of_number port @ '':localhost:'' @ string_of_number v,
        increment port)"

text \<open>The inner \<open>forEach\<close> over \<open>byHostPort\<close>: the state is the list of printed lines.\<close>

fun byHostPortForEach :: "(nat \<times> legend) list \<Rightarrow> string list \<Rightarrow> string list" where
  "byHostPortForEach [] console = console"
| "byHostPortForEach ((k, v) # rest) console =
     byHostPortForEach rest
       (console @ [string_of_number k @ [CHR 0x09] @ containerName v @ '':''
                   @ string_of_number (legend_containerPort v)])"

fun containerInstancesForEach ::
  "instanceIps \<Rightarrow> hostGroups \<Rightarrow> nat \<times> string list \<Rightarrow> nat \<times> string list" where
  "containerInstancesForEach ips [] (port, console) = (port, console)"
| "containerInstancesForEach ips ((k, v) # rest) (port, console) =
     (let v' = v\<lparr>ipAddress := getIp ips (instanceId v)\<rparr>;
          (str, port') = portsForEach (ports v') (''ssh'', port);
          str' = str @ '' ec2-user@'' @ string_of_value (ipAddress v')
      in containerInstancesForEach ips rest
           (port', byHostPortForEach (byHostPort v') (console @ [str'])))"

definition firstPort :: "nat option \<Rightarrow> nat" where
  "firstPort startingPort = (if truthy_number startingPort then the startingPort else 49152)"

text \<open>The last callback of the chain: addresses, then output. It returns the lines printed.\<close>

definition printForwards ::
  "bool \<Rightarrow> nat option \<Rightarrow> hostGroups \<Rightarrow> reservation list \<Rightarrow> error + string list" where
  "printForwards ipv6 startingPort containerInstances Reservations =
     andThen (reservationsLoop ipv6 Reservations [])
       (\<lambda>ips. Inr (snd (containerInstancesForEach ips containerInstances
                          (firstPort startingPort, []))))"

section \<open>The whole chain\<close>

definition clusterName_of :: "aws \<Rightarrow> string \<Rightarrow> string option \<Rightarrow> error + string" where
  "clusterName_of env serviceStackName clusterStackName =
     (if truthy_string clusterStackName then getClusterName env (the clusterStackName)
      else andThen (getClusterStackName env serviceStackName) (getClusterName env))"

definition taskList_of ::
  "aws \<Rightarrow> string \<Rightarrow> string option \<Rightarrow> string option \<Rightarrow> error + (string \<times> string list)" where
  "taskList_of env serviceStackName serviceName clusterStackName =
     andThen (Promise_all (serviceSettlesFirst env)
              (getServiceName env serviceStackName serviceName)
              (clusterName_of env serviceStackName clusterStackName))
       (\<lambda>(serviceName', clusterName).
          andThen (listTasks env serviceName' clusterName)
            (\<lambda>taskArns. Inr (clusterName, taskArns)))"

text \<open>Everything up to the answer of \<open>describeInstances\<close>.\<close>

definition hostGroups_of ::
  "aws \<Rightarrow> string \<Rightarrow> string option \<Rightarrow> string option \<Rightarrow> nat set option
     \<Rightarrow> error + (hostGroups \<times> reservation list)" where
  "hostGroups_of env serviceStackName serviceName clusterStackName containerPorts =
     andThen (taskList_of env serviceStackName serviceName clusterStackName)
       (\<lambda>(clusterName, taskList).
          andThen (describeTasks env clusterName taskList)
            (\<lambda>tasks.
               andThen (aggregate containerPorts tasks)
                 (\<lambda>containerInstances.
                    andThen (describeContainerInstances env (Map_keys containerInstances) clusterName)
                      (\<lambda>cis.
                         andThen (setInstanceIds cis containerInstances)
                           (\<lambda>containerInstances'.
                              andThen (describeInstances env
                                       (map instanceId (Map_values containerInstances')))
                                (\<lambda>Reservations. Inr (containerInstances', Reservations)))))))"

text \<open>The exported function of the later version, with a starting port.\<close>

definition forwards ::
  "aws \<Rightarrow> string \<Rightarrow> string option \<Rightarrow> string option \<Rightarrow> nat set option \<Rightarrow> bool \<Rightarrow> nat option
     \<Rightarrow> error + string list" where
  "forwards env serviceStackName serviceName clusterStackName containerPorts ipv6 startingPort =
     andThen (hostGroups_of env serviceStackName serviceName clusterStackName containerPorts)
       (\<lambda>(containerInstances, Reservations).
          printForwards ipv6 startingPort containerInstances Reservations)"

text \<open>The exported function of \<open>index.js\<close>: the same chain, counting from 49152.\<close>

definition forwards_index ::
  "aws \<Rightarrow> string \<Rightarrow> string option \<Rightarrow> string option \<Rightarrow> nat set option \<Rightarrow> bool
     \<Rightarrow> error + string list" where
  "forwards_index env serviceStackName serviceName clusterStackName containerPorts ipv6 =
     andThen (hostGroups_of env serviceStackName serviceName clusterStackName containerPorts)
       (\<lambda>(containerInstances, Reservations).
          andThen (reservationsLoop ipv6 Reservations [])
            (\<lambda>ips. Inr (snd (containerInstancesForEach ips containerInstances (49152, [])))))"

section \<open>The worked example\<close>

text \<open>
  A control plane that knows the stacks \<open>svc-A\<close> and \<open>cluster-A\<close> of the worked
  example. What the service runs is a parameter: the task references, the task details,
  the hosts and the compute instances it answers with.
\<close>

definition example_aws ::
  "string list \<Rightarrow> task list \<Rightarrow> containerInstance list \<Rightarrow> reservation list \<Rightarrow> aws" where
  "example_aws taskArns tasks hosts reservations = \<lparr>
     describeStackResources = (\<lambda>stackName logicalId.
        if stackName = ''svc-A'' \<and> logicalId = None then
          Inr [\<lparr>LogicalResourceId = ''service'', PhysicalResourceId = ''svc-phys'',
                ResourceType = ''AWS::ECS::Service''\<rparr>]
        else if stackName = ''cluster-A'' \<and> logicalId = Some ''cluster'' then
          Inr [\<lparr>LogicalResourceId = ''cluster'', PhysicalResourceId = ''i-cluster-phys'',
                ResourceType = ''AWS::ECS::Cluster''\<rparr>]
        else Inl (AwsError ''ValidationError'')),
     describeStacks = (\<lambda>stackName.
        if stackName = ''svc-A'' then
          Inr [\<lparr>Parameters =
                 [\<lparr>ParameterKey = ''ClusterStackName'', ParameterValue = ''cluster-A''\<rparr>]\<rparr>]
        else Inl (AwsError ''ValidationError'')),
     listTasks = (\<lambda>serviceName cluster.
        if serviceName = ''svc-phys'' \<and> cluster = ''i-cluster-phys'' then Inr taskArns
        else Inl (AwsError ''ClusterNotFoundException'')),
     describeTasks = (\<lambda>cluster arns.
        if cluster = ''i-cluster-phys'' \<and> arns = taskArns then Inr tasks
        else Inl (AwsError ''InvalidParameterException'')),
     describeContainerInstances = (\<lambda>ids cluster.
        if cluster = ''i-cluster-phys'' \<and> ids = map ci_containerInstanceArn hosts then Inr hosts
        else Inl (AwsError ''InvalidParameterException'')),
     describeInstances = (\<lambda>ids.
        if ids = map (\<lambda>h. Some (ec2InstanceId h)) hosts then Inr reservations
        else Inl (AwsError ''InvalidInstanceID'')),
     serviceSettlesFirst = True\<rparr>"

definition web_task :: task where
  "web_task = \<lparr>containerInstanceArn = ''ci-1'',
     containers = [\<lparr>networkBindings = Some [\<lparr>containerPort = 80, hostPort = 32768\<rparr>]\<rparr>],
     containerOverrides = [\<lparr>name = ''web''\<rparr>]\<rparr>"

definition host1 :: containerInstance where
  "host1 = \<lparr>ci_containerInstanceArn = ''ci-1'', ec2InstanceId = ''i-0001''\<rparr>"

definition instance1 :: "string option \<Rightarrow> networkInterface list \<Rightarrow> ec2Instance" where
  "instance1 publicIp interfaces =
     \<lparr>InstanceId = ''i-0001'', PublicIpAddress = publicIp, NetworkInterfaces = interfaces\<rparr>"

definition worked_example :: aws where
  "worked_example =
     example_aws [''task-1''] [web_task] [host1]
       [\<lparr>Instances = [instance1 (Some ''1.2.3.4'') [\<lparr>Ipv6Addresses = None\<rparr>]]\<rparr>]"

section \<open>The aggregation as a fold\<close>

text \<open>
  Every network binding of the task details in the order of the three loops, each with
  the host of its task and the name at the container's index in the overrides.
\<close>

definition bindingsOf :: "task \<Rightarrow> nat \<Rightarrow> (string \<times> string \<times> networkBinding) list" where
  "bindingsOf t j =
     (case networkBindings (containers t ! j) of
        None \<Rightarrow> []
      | Some bindings \<Rightarrow>
          map (\<lambda>b. (containerInstanceArn t, name (containerOverrides t ! j), b)) bindings)"

definition discovered :: "task list \<Rightarrow> (string \<times> string \<times> networkBinding) list" where
  "discovered tasks =
     concat (map (\<lambda>t. concat (map (bindingsOf t) [0..<length (containers t)])) tasks)"

text \<open>The bindings that pass the allow-set, and the step that records one of them.\<close>

definition kept :: "nat set option \<Rightarrow> task list \<Rightarrow> (string \<times> string \<times> networkBinding) list" where
  "kept containerPorts tasks =
     filter (\<lambda>(arn, cname, b). retained containerPorts b) (discovered tasks)"

definition track :: "hostGroups \<Rightarrow> string \<times> string \<times> networkBinding \<Rightarrow> hostGroups" where
  "track m x = (case x of (arn, cname, b) \<Rightarrow> trackBinding arn cname b m)"

text \<open>The group of a host in the aggregation, the fresh one when the host has none.\<close>

definition groupOf :: "hostGroups \<Rightarrow> string \<Rightarrow> containerInstanceRequest" where
  "groupOf m arn = (case Map_get m arn of Some r \<Rightarrow> r | None \<Rightarrow> newRequest)"

text \<open>A run of \<open>set\<close> calls on one map, and the bindings recorded for one host.\<close>

definition setAll :: "('x \<Rightarrow> 'k) \<Rightarrow> ('x \<Rightarrow> 'v) \<Rightarrow> ('k \<times> 'v) list \<Rightarrow> 'x list \<Rightarrow> ('k \<times> 'v) list" where
  "setAll key val m xs = foldl (\<lambda>m x. Map_set (key x) (val x) m) m xs"

definition onHost :: "string \<Rightarrow> (string \<times> string \<times> networkBinding) list \<Rightarrow> (string \<times> networkBinding) list" where
  "onHost arn xs = map snd (filter (\<lambda>x. fst x = arn) xs)"

section \<open>Properties of a group, and inputs that show them\<close>

text \<open>
  Every host port that is a key of the legend is the value of exactly one entry of the
  port map.
\<close>

definition legendInPorts :: "containerInstanceRequest \<Rightarrow> bool" where
  "legendInPorts g =
     (\<forall>hp\<in>set (Map_keys (byHostPort g)). count_list (Map_values (ports g)) hp = 1)"

text \<open>
  On each host, two recorded bindings have the same container port exactly when they
  have the same host port.
\<close>

definition oneToOne :: "(string \<times> string \<times> networkBinding) list \<Rightarrow> bool" where
  "oneToOne xs =
     (\<forall>(a1, n1, b1)\<in>set xs. \<forall>(a2, n2, b2)\<in>set xs.
        a1 = a2 \<longrightarrow> (containerPort b1 = containerPort b2) = (hostPort b1 = hostPort b2))"

text \<open>One container that publishes container port 80 on two host ports.\<close>

definition clash_task :: task where
  "clash_task = \<lparr>containerInstanceArn = ''ci-1'',
     containers = [\<lparr>networkBindings = Some [\<lparr>containerPort = 80, hostPort = 32768\<rparr>,
                                               \<lparr>containerPort = 80, hostPort = 32769\<rparr>]\<rparr>],
     containerOverrides = [\<lparr>name = ''web''\<rparr>]\<rparr>"

text \<open>
  A task of two containers on one host, with one more override than containers, and a
  task whose override list is shorter than its container list.
\<close>

definition two_port_task :: task where
  "two_port_task = \<lparr>containerInstanceArn = ''ci-1'',
     containers = [\<lparr>networkBindings = Some [\<lparr>containerPort = 80, hostPort = 32768\<rparr>]\<rparr>,
                   \<lparr>networkBindings = Some [\<lparr>containerPort = 443, hostPort = 32769\<rparr>]\<rparr>],
     containerOverrides = [\<lparr>name = ''web''\<rparr>, \<lparr>name = ''tls''\<rparr>, \<lparr>name = ''spare''\<rparr>]\<rparr>"

definition short_task :: task where
  "short_task = \<lparr>containerInstanceArn = ''ci-1'',
     containers = [\<lparr>networkBindings = None\<rparr>], containerOverrides = []\<rparr>"

text \<open>A service stack whose \<open>ClusterStackName\<close> parameter is the empty string.\<close>

definition empty_parameter_aws :: aws where
  "empty_parameter_aws =
     (example_aws [] [] [] [])\<lparr>describeStacks := (\<lambda>stackName.
        Inr [\<lparr>Parameters = [\<lparr>ParameterKey = ''Environment'', ParameterValue = ''prod''\<rparr>,
                             \<lparr>ParameterKey = ''ClusterStackName'', ParameterValue = ''''\<rparr>]\<rparr>])\<rparr>"

section \<open>The output, line by line\<close>

text \<open>
  One forwarding clause for a local port and a host port, the command line of a group
  from its clauses and its address, and one line of the legend.
\<close>

definition clause :: "nat \<times> nat \<Rightarrow> string" where
  "clause c = (case c of (localPort, hp) \<Rightarrow>
     '' -L'' @ string_of_number localPort @ '':localhost:'' @ string_of_number hp)"

definition sshLine :: "(nat \<times> nat) list \<Rightarrow> string option \<Rightarrow> string" where
  "sshLine clauses address =
     ''ssh'' @ concat (map clause clauses) @ '' ec2-user@'' @ string_of_value address"

definition legendLine :: "nat \<times> legend \<Rightarrow> string" where
  "legendLine entry = (case entry of (hp, v) \<Rightarrow>
     string_of_number hp @ [CHR 0x09] @ containerName v @ '':''
       @ string_of_number (legend_containerPort v))"

text \<open>
  The values the port counter takes in \<open>n\<close> steps from \<open>p\<close>, and the value it has
  after them.
\<close>

fun countFrom :: "nat \<Rightarrow> nat \<Rightarrow> nat list" where
  "countFrom p 0 = []"
| "countFrom p (Suc n) = p # countFrom (increment p) n"

fun advance :: "nat \<Rightarrow> nat \<Rightarrow> nat" where
  "advance p 0 = p"
| "advance p (Suc n) = advance (increment p) n"

text \<open>
  The clauses of each group, in the order of the groups: the host ports are the values
  of \<open>ports\<close> in insertion order, the local ports are the values of the counter from
  \<open>p\<close> on, and the counter carries on from one group to the next.
\<close>

fun numbering :: "nat \<Rightarrow> hostGroups \<Rightarrow> (nat \<times> nat) list list" where
  "numbering p [] = []"
| "numbering p ((k, v) # rest) =
     zip (countFrom p (length (ports v))) (Map_values (ports v))
       # numbering (advance p (length (ports v))) rest"

text \<open>The lines printed for one group, and for all groups.\<close>

definition block ::
  "instanceIps \<Rightarrow> string \<times> containerInstanceRequest \<Rightarrow> (nat \<times> nat) list \<Rightarrow> string list" where
  "block ips hostGroup clauses =
     sshLine clauses (getIp ips (instanceId (snd hostGroup)))
       # map legendLine (byHostPort (snd hostGroup))"

definition rendered :: "instanceIps \<Rightarrow> hostGroups \<Rightarrow> nat \<Rightarrow> string list" where
  "rendered ips groups p = concat (map2 (block ips) groups (numbering p groups))"

text \<open>The number of clauses of all groups, and the instances of all reservations.\<close>

definition clauseCount :: "hostGroups \<Rightarrow> nat" where
  "clauseCount groups = sum_list (map (\<lambda>hostGroup. length (ports (snd hostGroup))) groups)"

definition allInstances :: "reservation list \<Rightarrow> ec2Instance list" where
  "allInstances Reservations = concat (map Instances Reservations)"

text \<open>A second task on a second host, and the two hosts with their instances.\<close>

definition tls_task :: task where
  "tls_task = \<lparr>containerInstanceArn = ''ci-2'',
     containers = [\<lparr>networkBindings = Some [\<lparr>containerPort = 443, hostPort = 32769\<rparr>]\<rparr>],
     containerOverrides = [\<lparr>name = ''tls''\<rparr>]\<rparr>"

definition two_hosts :: aws where
  "two_hosts =
     example_aws [''task-1'', ''task-2''] [web_task, tls_task]
       [host1, \<lparr>ci_containerInstanceArn = ''ci-2'', ec2InstanceId = ''i-0002''\<rparr>]
       [\<lparr>Instances = [instance1 (Some ''1.2.3.4'') [],
           \<lparr>InstanceId = ''i-0002'', PublicIpAddress = Some ''5.6.7.8'',
              NetworkInterfaces = []\<rparr>]\<rparr>]"

section \<open>The address of an instance\<close>

text \<open>
  The first IPv6 address of the first network interface, when there is one, and the
  instances whose first interface has no IPv6 address: its list is absent or empty.
\<close>

definition firstIpv6 :: "ec2Instance \<Rightarrow> string option" where
  "firstIpv6 i =
     (case NetworkInterfaces i of
        [] \<Rightarrow> None
      | ni # _ \<Rightarrow>
          (case Ipv6Addresses ni of
             None \<Rightarrow> None
           | Some [] \<Rightarrow> None
           | Some (a # _) \<Rightarrow> Some (Ipv6Address a)))"

definition lacksIpv6 :: "ec2Instance \<Rightarrow> bool" where
  "lacksIpv6 i =
     (case NetworkInterfaces i of
        [] \<Rightarrow> False
      | ni # _ \<Rightarrow> Ipv6Addresses ni = None \<or> Ipv6Addresses ni = Some [])"

text \<open>The worked example with a parameter for the address and interfaces of its instance.\<close>

definition one_instance :: "string option \<Rightarrow> networkInterface list \<Rightarrow> aws" where
  "one_instance publicIp interfaces =
     example_aws [''task-1''] [web_task] [host1] [\<lparr>Instances = [instance1 publicIp interfaces]\<rparr>]"

section \<open>Evaluation of the chain on the example\<close>

lemmas chain_defs =
  forwards_def forwards_index_def hostGroups_of_def taskList_of_def andThen_def Promise_all_def
  getServiceName_def getServiceName_then_def truthy_string_def clusterName_of_def
  getClusterStackName_def getClusterStackName_then_def getClusterName_def getClusterName_then_def
  aggregate_def containersLoop.simps retained_def trackBinding_def newRequest_def
  Map_keys_def Map_values_def printForwards_def instanceAddress_def firstPort_def
  truthy_number_def getIp_def string_of_value_def digit_char_def increment_def

lemmas example_defs =
  example_aws_def web_task_def host1_def instance1_def worked_example_def

text \<open>
  Claim C1. In the environment of the worked example, with no port filter, IPv4 mode and
  the default starting port, the program prints two lines: the command
  \<open>ssh -L49152:localhost:32768 ec2-user@1.2.3.4\<close>, then the legend line made of
  \<open>32768\<close>, a tab and \<open>web:80\<close>. Both versions of the exported function do so.
\<close>

theorem worked_example_output:
  "forwards worked_example ''svc-A'' None None None False None =
     Inr [''ssh -L49152:localhost:32768 ec2-user@1.2.3.4'', ''32768'' @ [CHR 0x09] @ ''web:80'']
   \<and> forwards_index worked_example ''svc-A'' None None None False =
     Inr [''ssh -L49152:localhost:32768 ec2-user@1.2.3.4'', ''32768'' @ [CHR 0x09] @ ''web:80'']"
  by (simp add: chain_defs example_defs)

section \<open>The loops of the aggregation\<close>

lemma bindingsLoop_foldl:
  "bindingsLoop cps arn cname bs m =
     foldl track m (filter (\<lambda>(a, n, b). retained cps b) (map (\<lambda>b. (arn, cname, b)) bs))"
  by (induction bs arbitrary: m) (simp_all add: track_def)

lemma containersLoop_foldl:
  "containersLoop cps t j m =
     (if length (containers t) \<le> length (containerOverrides t) \<or> length (containers t) \<le> j
      then Inr (foldl track m (filter (\<lambda>(a, n, b). retained cps b)
                  (concat (map (bindingsOf t) [j..<length (containers t)]))))
      else Inl TypeError)"
proof (induction cps t j m rule: containersLoop.induct)
  case (1 cps t j m)
  show ?case
  proof (cases "j < length (containers t)")
    case False
    then show ?thesis by (simp add: containersLoop.simps [of cps t j m])
  next
    case inside: True
    show ?thesis
    proof (cases "j < length (containerOverrides t)")
      case False
      with inside show ?thesis by (simp add: containersLoop.simps [of cps t j m])
    next
      case True
      have upt: "[j..<length (containers t)] = j # [j + 1..<length (containers t)]"
        using inside by (simp add: upt_conv_Cons)
      have ok: "(length (containers t) \<le> length (containerOverrides t) \<or> length (containers t) \<le> j + 1)
                \<longleftrightarrow> (length (containers t) \<le> length (containerOverrides t) \<or> length (containers t) \<le> j)"
        using inside True by auto
      show ?thesis
        using inside True "1.IH" [OF inside True] ok
        by (subst containersLoop.simps) (auto simp: upt bindingsOf_def bindingsLoop_foldl split: option.splits)
    qed
  qed
qed

lemma tasksLoop_foldl:
  "tasksLoop cps ts m =
     (if \<forall>t\<in>set ts. length (containers t) \<le> length (containerOverrides t)
      then Inr (foldl track m (filter (\<lambda>(a, n, b). retained cps b) (discovered ts)))
      else Inl TypeError)"
  by (induction ts arbitrary: m) (auto simp: discovered_def containersLoop_foldl andThen_def)

lemma aggregate_foldl:
  "aggregate cps tasks =
     (if \<forall>t\<in>set tasks. length (containers t) \<le> length (containerOverrides t)
      then Inr (foldl track [] (kept cps tasks))
      else Inl TypeError)"
  by (simp add: aggregate_def tasksLoop_foldl kept_def)

section \<open>Maps in insertion order\<close>

lemma Map_get_set: "Map_get (Map_set k v m) k' = (if k' = k then Some v else Map_get m k')"
  by (induction m) auto

lemma Map_keys_set:
  "map fst (Map_set k v m) = (if k \<in> set (map fst m) then map fst m else map fst m @ [k])"
  by (induction m) (auto simp: rev_image_eqI)

lemma keys_Map_set: "fst ` set (Map_set k v m) = insert k (fst ` set m)"
  using arg_cong [OF Map_keys_set [of k v m], of set] by (auto simp del: set_map simp: set_map [symmetric])

lemma distinct_Map_set: "distinct (map fst m) \<Longrightarrow> distinct (map fst (Map_set k v m))"
  by (simp add: Map_keys_set)

lemma entry_Map_set: "(k', v') \<in> set (Map_set k v m) \<Longrightarrow> (k' = k \<and> v' = v) \<or> (k', v') \<in> set m"
  by (induction m) (auto split: if_splits)

lemma Map_get_distinct: "distinct (map fst m) \<Longrightarrow> (k, v) \<in> set m \<Longrightarrow> Map_get m k = Some v"
  by (induction m) (auto simp: rev_image_eqI)



lemma setAll_Nil: "setAll key val m [] = m"
  by (simp add: setAll_def)

lemma setAll_Cons: "setAll key val m (x # xs) = setAll key val (Map_set (key x) (val x) m) xs"
  by (simp add: setAll_def)

lemma setAll_snoc: "setAll key val m (xs @ [x]) = Map_set (key x) (val x) (setAll key val m xs)"
  by (simp add: setAll_def)

lemma keys_setAll: "fst ` set (setAll key val m xs) = fst ` set m \<union> key ` set xs"
  by (induction xs arbitrary: m) (auto simp: setAll_Nil setAll_Cons keys_Map_set)

lemma distinct_setAll: "distinct (map fst m) \<Longrightarrow> distinct (map fst (setAll key val m xs))"
  by (induction xs arbitrary: m) (auto simp: setAll_Nil setAll_Cons distinct_Map_set)

lemma entry_setAll:
  "(k, v) \<in> set (setAll key val m xs) \<Longrightarrow> (k, v) \<in> set m \<or> (\<exists>x\<in>set xs. k = key x \<and> v = val x)"
proof (induction xs arbitrary: m)
  case Nil
  then show ?case by (simp add: setAll_Nil)
next
  case (Cons x xs)
  from Cons.prems have "(k, v) \<in> set (setAll key val (Map_set (key x) (val x) m) xs)"
    by (simp add: setAll_Cons)
  from Cons.IH [OF this] show ?case
    by (auto dest: entry_Map_set)
qed

section \<open>The group of one host\<close>

lemma groupOf_track_ports:
  "ports (groupOf (track m (a, n, b)) a') =
     (if a' = a then Map_set (containerPort b) (hostPort b) (ports (groupOf m a'))
      else ports (groupOf m a'))"
  by (simp add: groupOf_def track_def trackBinding_def Map_get_set Let_def)

lemma groupOf_track_byHostPort:
  "byHostPort (groupOf (track m (a, n, b)) a') =
     (if a' = a
      then Map_set (hostPort b) \<lparr>containerName = n, legend_containerPort = containerPort b\<rparr>
             (byHostPort (groupOf m a'))
      else byHostPort (groupOf m a'))"
  by (simp add: groupOf_def track_def trackBinding_def Map_get_set Let_def)


lemma distinct_track: "distinct (map fst m) \<Longrightarrow> distinct (map fst (track m x))"
  by (cases x) (simp add: track_def trackBinding_def distinct_Map_set Let_def)

lemma ports_foldl_track:
  "ports (groupOf (foldl track m xs) a) =
     setAll (\<lambda>(n, b). containerPort b) (\<lambda>(n, b). hostPort b) (ports (groupOf m a)) (onHost a xs)"
proof (induction xs arbitrary: m)
  case Nil
  show ?case by (simp add: onHost_def setAll_Nil)
next
  case (Cons x xs)
  obtain a' n b where x: "x = (a', n, b)" by (cases x)
  show ?case
    by (simp add: Cons.IH x groupOf_track_ports onHost_def setAll_Cons)
qed

lemma byHostPort_foldl_track:
  "byHostPort (groupOf (foldl track m xs) a) =
     setAll (\<lambda>(n, b). hostPort b)
       (\<lambda>(n, b). \<lparr>containerName = n, legend_containerPort = containerPort b\<rparr>)
       (byHostPort (groupOf m a)) (onHost a xs)"
proof (induction xs arbitrary: m)
  case Nil
  show ?case by (simp add: onHost_def setAll_Nil)
next
  case (Cons x xs)
  obtain a' n b where x: "x = (a', n, b)" by (cases x)
  show ?case
    by (simp add: Cons.IH x groupOf_track_byHostPort onHost_def setAll_Cons)
qed


lemma distinct_foldl_track: "distinct (map fst m) \<Longrightarrow> distinct (map fst (foldl track m xs))"
  by (induction xs arbitrary: m) (simp_all add: distinct_track)

lemma group_of_entry:
  "(a, g) \<in> set (foldl track [] xs) \<Longrightarrow> g = groupOf (foldl track [] xs) a"
  using Map_get_distinct [OF distinct_foldl_track [of "[]" xs], of a g]
  by (simp add: groupOf_def)

lemma groupOf_empty: "groupOf [] a = newRequest"
  by (simp add: groupOf_def)

section \<open>Legend and port map of a group\<close>

lemma count_list_distinct: "distinct xs \<Longrightarrow> x \<in> set xs \<Longrightarrow> count_list xs x = 1"
  by (induction xs) auto

lemma onHost_mem: "(n, b) \<in> set (onHost a xs) \<longleftrightarrow> (a, n, b) \<in> set xs"
  by (force simp: onHost_def)

lemma Map_get_setAll:
  "Map_get (setAll key val m xs) k =
     (if \<exists>x\<in>set xs. key x = k then Some (val (last (filter (\<lambda>x. key x = k) xs)))
      else Map_get m k)"
proof (induction xs rule: rev_induct)
  case Nil
  show ?case by (simp add: setAll_Nil)
next
  case (snoc x xs)
  show ?case
    by (auto simp: setAll_snoc Map_get_set snoc.IH filter_empty_conv)
qed

lemma values_one_to_one:
  assumes inj: "\<forall>x\<in>set xs. \<forall>y\<in>set xs. (key x = key y) = (val x = val y)"
    and x: "x \<in> set xs"
  shows "count_list (map snd (setAll key val [] xs)) (val x) = 1"
proof -
  let ?P = "setAll key val [] xs"
  have dk: "distinct (map fst ?P)" by (simp add: distinct_setAll)
  have src: "\<exists>y\<in>set xs. k = key y \<and> v = val y" if "(k, v) \<in> set ?P" for k v
    using entry_setAll [OF that] by simp
  have "inj_on snd (set ?P)"
  proof (rule inj_onI)
    fix p q assume p: "p \<in> set ?P" and q: "q \<in> set ?P" and eq: "snd p = snd q"
    obtain y where y: "y \<in> set xs" "fst p = key y" "snd p = val y"
      using src [of "fst p" "snd p"] p by auto
    obtain z where z: "z \<in> set xs" "fst q = key z" "snd q = val z"
      using src [of "fst q" "snd q"] q by auto
    from inj y z eq have "key y = key z" by auto
    with y z eq show "p = q" by (simp add: prod_eq_iff)
  qed
  moreover have "distinct ?P" using dk by (simp add: distinct_map)
  ultimately have dv: "distinct (map snd ?P)" by (simp add: distinct_map)
  have "key x \<in> fst ` set ?P" using x by (simp add: keys_setAll)
  then obtain v where v: "(key x, v) \<in> set ?P" by auto
  then obtain y where y: "y \<in> set xs" "key x = key y" "v = val y" using src by blast
  with inj x have "v = val x" by auto
  with v have "val x \<in> set (map snd ?P)" by force
  with dv show ?thesis by (rule count_list_distinct)
qed

lemma aggregate_Inr:
  "aggregate cps tasks = Inr m \<Longrightarrow>
     m = foldl track [] (kept cps tasks)
     \<and> (\<forall>t\<in>set tasks. length (containers t) \<le> length (containerOverrides t))"
  by (simp add: aggregate_foldl split: if_splits)

lemma aggregate_ports:
  assumes "aggregate cps tasks = Inr m" "(a, g) \<in> set m"
  shows "ports g = setAll (\<lambda>(n, b). containerPort b) (\<lambda>(n, b). hostPort b) [] (onHost a (kept cps tasks))"
  using assms aggregate_Inr [OF assms(1)] group_of_entry [of a g "kept cps tasks"]
    ports_foldl_track [of "[]" "kept cps tasks" a]
  by (simp add: groupOf_empty newRequest_def)

lemma aggregate_byHostPort:
  assumes "aggregate cps tasks = Inr m" "(a, g) \<in> set m"
  shows "byHostPort g = setAll (\<lambda>(n, b). hostPort b)
           (\<lambda>(n, b). \<lparr>containerName = n, legend_containerPort = containerPort b\<rparr>) []
           (onHost a (kept cps tasks))"
  using assms aggregate_Inr [OF assms(1)] group_of_entry [of a g "kept cps tasks"]
    byHostPort_foldl_track [of "[]" "kept cps tasks" a]
  by (simp add: groupOf_empty newRequest_def)

text \<open>
  Claim C3, as amended. When the aggregation succeeds and, on each host, two retained
  bindings share their container port exactly when they share their host port, then in
  every host group each host port that is a key of \<open>byHostPort\<close> is the value of
  exactly one entry of \<open>ports\<close>.
\<close>

theorem legend_in_ports_one_to_one:
  assumes agg: "aggregate containerPorts tasks = Inr m"
    and one: "oneToOne (kept containerPorts tasks)"
    and g: "(a, g) \<in> set m"
  shows "legendInPorts g"
  unfolding legendInPorts_def
proof
  fix hp assume "hp \<in> set (Map_keys (byHostPort g))"
  then have "hp \<in> (\<lambda>(n, b). hostPort b) ` set (onHost a (kept containerPorts tasks))"
    by (simp add: Map_keys_def aggregate_byHostPort [OF agg g] keys_setAll)
  then obtain n b where x: "(n, b) \<in> set (onHost a (kept containerPorts tasks))" "hp = hostPort b"
    by auto
  have inj: "\<forall>x\<in>set (onHost a (kept containerPorts tasks)).
             \<forall>y\<in>set (onHost a (kept containerPorts tasks)).
               ((case x of (n, b) \<Rightarrow> containerPort b) = (case y of (n, b) \<Rightarrow> containerPort b))
               = ((case x of (n, b) \<Rightarrow> hostPort b) = (case y of (n, b) \<Rightarrow> hostPort b))"
    using one by (fastforce simp: oneToOne_def onHost_mem)
  from values_one_to_one [OF inj x(1)] x(2)
  show "count_list (Map_values (ports g)) hp = 1"
    by (simp add: Map_values_def aggregate_ports [OF agg g])
qed

text \<open>The hypotheses hold for the task of the worked example.\<close>

theorem legend_in_ports_one_to_one_witness:
  "aggregate None [web_task] =
     Inr [(''ci-1'', \<lparr>ports = [(80, 32768)],
            byHostPort = [(32768, \<lparr>containerName = ''web'', legend_containerPort = 80\<rparr>)],
            instanceId = None, ipAddress = None\<rparr>)]
   \<and> oneToOne (kept None [web_task])
   \<and> legendInPorts \<lparr>ports = [(80, 32768)],
            byHostPort = [(32768, \<lparr>containerName = ''web'', legend_containerPort = 80\<rparr>)],
            instanceId = None, ipAddress = None\<rparr>"
proof -
  have agg: "aggregate None [web_task] =
     Inr [(''ci-1'', \<lparr>ports = [(80, 32768)],
            byHostPort = [(32768, \<lparr>containerName = ''web'', legend_containerPort = 80\<rparr>)],
            instanceId = None, ipAddress = None\<rparr>)]"
    by (simp add: chain_defs example_defs)
  have one: "oneToOne (kept None [web_task])"
    by (simp add: oneToOne_def kept_def discovered_def bindingsOf_def web_task_def retained_def)
  from legend_in_ports_one_to_one [OF agg one] agg one show ?thesis by simp
qed

text \<open>
  Claim C3 as stated fails when two retained bindings on one host share a container
  port: the later write replaces the earlier one in \<open>ports\<close>, and the host port
  32768 stays in the legend while no entry of \<open>ports\<close> has it as its value.
\<close>

theorem legend_not_in_ports_counterexample:
  "aggregate None [clash_task] =
     Inr [(''ci-1'', \<lparr>ports = [(80, 32769)],
            byHostPort = [(32768, \<lparr>containerName = ''web'', legend_containerPort = 80\<rparr>),
                          (32769, \<lparr>containerName = ''web'', legend_containerPort = 80\<rparr>)],
            instanceId = None, ipAddress = None\<rparr>)]
   \<and> \<not> legendInPorts \<lparr>ports = [(80, 32769)],
            byHostPort = [(32768, \<lparr>containerName = ''web'', legend_containerPort = 80\<rparr>),
                          (32769, \<lparr>containerName = ''web'', legend_containerPort = 80\<rparr>)],
            instanceId = None, ipAddress = None\<rparr>
   \<and> count_list (Map_values [(80, 32769 :: nat)]) (32768 :: nat) = 0"
  by (simp add: chain_defs clash_task_def legendInPorts_def)

section \<open>Which bindings are recorded\<close>


lemma kept_mem:
  "(a, n, b) \<in> set (kept cps tasks) \<longleftrightarrow> (a, n, b) \<in> set (discovered tasks) \<and> retained cps b"
  by (auto simp: kept_def)

lemma bindingsOf_mem:
  "(a, n, b) \<in> set (bindingsOf t j) \<longleftrightarrow>
     (\<exists>bs. networkBindings (containers t ! j) = Some bs \<and> b \<in> set bs
        \<and> a = containerInstanceArn t \<and> n = name (containerOverrides t ! j))"
  by (cases "networkBindings (containers t ! j)") (auto simp: bindingsOf_def)

lemma discovered_mem:
  "(a, n, b) \<in> set (discovered tasks) \<longleftrightarrow>
     (\<exists>t\<in>set tasks. \<exists>j<length (containers t). \<exists>bs.
        networkBindings (containers t ! j) = Some bs \<and> b \<in> set bs
        \<and> a = containerInstanceArn t \<and> n = name (containerOverrides t ! j))"
proof -
  have "(a, n, b) \<in> set (discovered tasks) \<longleftrightarrow>
          (\<exists>t\<in>set tasks. \<exists>j<length (containers t). (a, n, b) \<in> set (bindingsOf t j))"
    by (simp add: discovered_def) (meson atLeastLessThan_iff le0)
  then show ?thesis by (simp add: bindingsOf_mem)
qed





lemma byHostPort_entry_source:
  assumes "aggregate cps tasks = Inr m" "(a, g) \<in> set m" "(hp, e) \<in> set (byHostPort g)"
  shows "\<exists>n b. (a, n, b) \<in> set (kept cps tasks) \<and> hp = hostPort b
           \<and> e = \<lparr>containerName = n, legend_containerPort = containerPort b\<rparr>"
  using entry_setAll [of hp e "\<lambda>(n, b). hostPort b"
      "\<lambda>(n, b). \<lparr>containerName = n, legend_containerPort = containerPort b\<rparr>" "[]"
      "onHost a (kept cps tasks)"] assms(3)
  by (fastforce simp: aggregate_byHostPort [OF assms(1,2)] onHost_mem)

lemma last_write_wins:
  assumes split: "xs = pre @ (a, n, b) # post"
    and later: "\<forall>(a2, n2, b2)\<in>set post. a2 = a \<longrightarrow> hostPort b2 \<noteq> hostPort b"
  shows "Map_get (byHostPort (groupOf (foldl track [] xs) a)) (hostPort b) =
           Some \<lparr>containerName = n, legend_containerPort = containerPort b\<rparr>"
proof -
  have none: "filter (\<lambda>x. (case x of (n, b') \<Rightarrow> hostPort b') = hostPort b) (onHost a post) = []"
    using later by (auto simp: filter_empty_conv onHost_mem)
  have on: "onHost a xs = onHost a pre @ (n, b) # onHost a post"
    by (simp add: split onHost_def)
  have ex: "\<exists>x\<in>set (onHost a xs). (case x of (n, b') \<Rightarrow> hostPort b') = hostPort b"
    unfolding on by force
  show ?thesis
    unfolding byHostPort_foldl_track Map_get_setAll using ex
    by (simp add: on none)
qed



text \<open>
  Claim C9. When the aggregation succeeds, every entry of a group's \<open>byHostPort\<close> map
  was written for a retained binding of the container at some index \<open>j\<close> of a task
  on that host, and its \<open>containerName\<close> is the name at the same index \<open>j\<close> of
  that task's overrides; every retained binding of the container at index \<open>j\<close> is
  recorded with the name at index \<open>j\<close>, and the entry is still in the map at the end
  unless a later binding on the same host has the same host port. The two lists are
  never compared: the aggregation succeeds exactly when no task has more containers than
  overrides (a longer override list is accepted), and otherwise reading the name at a
  missing index throws a \<open>TypeError\<close>.
\<close>

theorem container_name_by_index:
  "(aggregate containerPorts tasks = Inr m \<longrightarrow>
      m = foldl track [] (kept containerPorts tasks)
      \<and> ((a, g) \<in> set m \<longrightarrow> (hp, e) \<in> set (byHostPort g) \<longrightarrow>
           (\<exists>t\<in>set tasks. \<exists>j<length (containers t). \<exists>bs.
              networkBindings (containers t ! j) = Some bs
              \<and> (\<exists>b\<in>set bs. retained containerPorts b \<and> hostPort b = hp
                    \<and> containerPort b = legend_containerPort e)
              \<and> containerInstanceArn t = a
              \<and> j < length (containerOverrides t)
              \<and> containerName e = name (containerOverrides t ! j)))
      \<and> (t \<in> set tasks \<longrightarrow> j < length (containers t) \<longrightarrow>
           networkBindings (containers t ! j) = Some bs \<longrightarrow> b \<in> set bs \<longrightarrow>
           retained containerPorts b \<longrightarrow>
           (containerInstanceArn t, name (containerOverrides t ! j), b)
             \<in> set (kept containerPorts tasks))
      \<and> (kept containerPorts tasks = pre @ (a', n', b') # post \<longrightarrow>
           (\<forall>(a2, n2, b2)\<in>set post. a2 = a' \<longrightarrow> hostPort b2 \<noteq> hostPort b') \<longrightarrow>
           Map_get (byHostPort (groupOf m a')) (hostPort b') =
             Some \<lparr>containerName = n', legend_containerPort = containerPort b'\<rparr>))
   \<and> ((\<exists>m'. aggregate containerPorts tasks = Inr m')
        = (\<forall>t\<in>set tasks. length (containers t) \<le> length (containerOverrides t)))
   \<and> (aggregate containerPorts tasks = Inl err \<longrightarrow> err = TypeError)"
proof -
  have src: "\<exists>t\<in>set tasks. \<exists>j<length (containers t). \<exists>bs.
              networkBindings (containers t ! j) = Some bs
              \<and> (\<exists>b\<in>set bs. retained containerPorts b \<and> hostPort b = hp
                    \<and> containerPort b = legend_containerPort e)
              \<and> containerInstanceArn t = a
              \<and> j < length (containerOverrides t)
              \<and> containerName e = name (containerOverrides t ! j)"
    if agg: "aggregate containerPorts tasks = Inr m" and g: "(a, g) \<in> set m"
      and e: "(hp, e) \<in> set (byHostPort g)"
  proof -
    obtain n b where k: "(a, n, b) \<in> set (kept containerPorts tasks)" "hp = hostPort b"
        "e = \<lparr>containerName = n, legend_containerPort = containerPort b\<rparr>"
      using byHostPort_entry_source [OF agg g e] by blast
    from k(1) obtain t j bs where t: "t \<in> set tasks" "j < length (containers t)"
        "networkBindings (containers t ! j) = Some bs" "b \<in> set bs"
        "a = containerInstanceArn t" "n = name (containerOverrides t ! j)"
      unfolding kept_mem discovered_mem by blast
    have "length (containers t) \<le> length (containerOverrides t)"
      using aggregate_Inr [OF agg] t(1) by blast
    with t k show ?thesis
      by (fastforce simp: kept_mem)
  qed
  have fwd: "(containerInstanceArn t, name (containerOverrides t ! j), b)
               \<in> set (kept containerPorts tasks)"
    if "t \<in> set tasks" "j < length (containers t)" "networkBindings (containers t ! j) = Some bs"
      "b \<in> set bs" "retained containerPorts b"
    using that unfolding kept_mem discovered_mem by blast
  have lastw: "Map_get (byHostPort (groupOf m a')) (hostPort b') =
             Some \<lparr>containerName = n', legend_containerPort = containerPort b'\<rparr>"
    if "aggregate containerPorts tasks = Inr m"
      "kept containerPorts tasks = pre @ (a', n', b') # post"
      "\<forall>(a2, n2, b2)\<in>set post. a2 = a' \<longrightarrow> hostPort b2 \<noteq> hostPort b'"
    using last_write_wins [OF that(2,3)] aggregate_Inr [OF that(1)] by simp
  have ok: "(\<exists>m'. aggregate containerPorts tasks = Inr m')
        = (\<forall>t\<in>set tasks. length (containers t) \<le> length (containerOverrides t))"
    by (simp add: aggregate_foldl)
  have err: "err = TypeError" if "aggregate containerPorts tasks = Inl err"
    using that by (simp add: aggregate_foldl split: if_splits)
  have m: "m = foldl track [] (kept containerPorts tasks)"
    if "aggregate containerPorts tasks = Inr m"
    using aggregate_Inr [OF that] by simp
  show ?thesis
  proof (intro conjI impI)
    assume agg: "aggregate containerPorts tasks = Inr m"
    show "m = foldl track [] (kept containerPorts tasks)" by (rule m [OF agg])
  next
    assume "aggregate containerPorts tasks = Inr m" "(a, g) \<in> set m" "(hp, e) \<in> set (byHostPort g)"
    then show "\<exists>t\<in>set tasks. \<exists>j<length (containers t). \<exists>bs.
              networkBindings (containers t ! j) = Some bs
              \<and> (\<exists>b\<in>set bs. retained containerPorts b \<and> hostPort b = hp
                    \<and> containerPort b = legend_containerPort e)
              \<and> containerInstanceArn t = a
              \<and> j < length (containerOverrides t)
              \<and> containerName e = name (containerOverrides t ! j)"
      by (rule src)
  next
    assume "t \<in> set tasks" "j < length (containers t)"
      "networkBindings (containers t ! j) = Some bs" "b \<in> set bs" "retained containerPorts b"
    then show "(containerInstanceArn t, name (containerOverrides t ! j), b)
                 \<in> set (kept containerPorts tasks)"
      by (rule fwd)
  next
    assume "aggregate containerPorts tasks = Inr m"
      "kept containerPorts tasks = pre @ (a', n', b') # post"
      "\<forall>(a2, n2, b2)\<in>set post. a2 = a' \<longrightarrow> hostPort b2 \<noteq> hostPort b'"
    then show "Map_get (byHostPort (groupOf m a')) (hostPort b') =
             Some \<lparr>containerName = n', legend_containerPort = containerPort b'\<rparr>"
      by (rule lastw)
  next
    show "(\<exists>m'. aggregate containerPorts tasks = Inr m')
        = (\<forall>t\<in>set tasks. length (containers t) \<le> length (containerOverrides t))"
      by (rule ok)
  next
    assume "aggregate containerPorts tasks = Inl err"
    then show "err = TypeError" by (rule err)
  qed
qed

text \<open>
  A task with two containers and three overrides is aggregated with the names at the
  indices 0 and 1; a task with one container and no override is not.
\<close>

theorem container_name_by_index_witness:
  "aggregate None [two_port_task] =
     Inr [(''ci-1'', \<lparr>ports = [(80, 32768), (443, 32769)],
            byHostPort = [(32768, \<lparr>containerName = ''web'', legend_containerPort = 80\<rparr>),
                          (32769, \<lparr>containerName = ''tls'', legend_containerPort = 443\<rparr>)],
            instanceId = None, ipAddress = None\<rparr>)]
   \<and> length (containers two_port_task) = 2 \<and> length (containerOverrides two_port_task) = 3
   \<and> name (containerOverrides two_port_task ! 1) = ''tls''
   \<and> kept None [two_port_task] =
       [(''ci-1'', ''web'', \<lparr>containerPort = 80, hostPort = 32768\<rparr>)]
       @ (''ci-1'', ''tls'', \<lparr>containerPort = 443, hostPort = 32769\<rparr>) # []
   \<and> Map_get (byHostPort (groupOf [(''ci-1'', \<lparr>ports = [(80, 32768), (443, 32769)],
            byHostPort = [(32768, \<lparr>containerName = ''web'', legend_containerPort = 80\<rparr>),
                          (32769, \<lparr>containerName = ''tls'', legend_containerPort = 443\<rparr>)],
            instanceId = None, ipAddress = None\<rparr>)] ''ci-1'')) 32769 =
       Some \<lparr>containerName = ''tls'', legend_containerPort = 443\<rparr>
   \<and> aggregate None [short_task] = Inl TypeError"
proof -
  let ?m = "[(''ci-1'', \<lparr>ports = [(80, 32768), (443, 32769)],
            byHostPort = [(32768, \<lparr>containerName = ''web'', legend_containerPort = 80\<rparr>),
                          (32769, \<lparr>containerName = ''tls'', legend_containerPort = 443\<rparr>)],
            instanceId = None, ipAddress = None\<rparr>)]"
  have agg: "aggregate None [two_port_task] = Inr ?m"
    by (simp add: chain_defs two_port_task_def)
  have k: "kept None [two_port_task] =
       [(''ci-1'', ''web'', \<lparr>containerPort = 80, hostPort = 32768\<rparr>)]
       @ (''ci-1'', ''tls'', \<lparr>containerPort = 443, hostPort = 32769\<rparr>) # []"
    by (simp add: kept_def discovered_def bindingsOf_def two_port_task_def upt_rec retained_def)
  have short: "aggregate None [short_task] = Inl TypeError"
    by (simp add: chain_defs short_task_def)
  have later: "\<forall>(a2, n2, b2)\<in>set []. a2 = ''ci-1'' \<longrightarrow>
                 hostPort b2 \<noteq> hostPort \<lparr>containerPort = 443, hostPort = 32769\<rparr>"
    by simp
  from container_name_by_index [of None "[two_port_task]" ?m "''ci-1''" _ _ _ _ _ _ _
      "[(''ci-1'', ''web'', \<lparr>containerPort = 80, hostPort = 32768\<rparr>)]" "''ci-1''" "''tls''"
      "\<lparr>containerPort = 443, hostPort = 32769\<rparr>" "[]" TypeError] agg k later
  have "Map_get (byHostPort (groupOf ?m ''ci-1''))
          (hostPort \<lparr>containerPort = 443, hostPort = 32769\<rparr>) =
        Some \<lparr>containerName = ''tls'',
              legend_containerPort = containerPort \<lparr>containerPort = 443, hostPort = 32769\<rparr>\<rparr>"
    by blast
  then have "Map_get (byHostPort (groupOf ?m ''ci-1'')) 32769 =
        Some \<lparr>containerName = ''tls'', legend_containerPort = 443\<rparr>"
    by simp
  moreover have "length (containers two_port_task) = 2 \<and> length (containerOverrides two_port_task) = 3
      \<and> name (containerOverrides two_port_task ! 1) = ''tls''"
    by (simp add: two_port_task_def)
  ultimately show ?thesis using agg k short by simp
qed

section \<open>The resolvers and the empty run\<close>

lemma firstService_find:
  "firstService rs =
     (case find (\<lambda>r. ResourceType r = ''AWS::ECS::Service'') rs of
        None \<Rightarrow> Inl (Error ''Service not found'')
      | Some r \<Rightarrow> Inr (PhysicalResourceId r))"
  by (induction rs) simp_all

lemma findClusterStackName_find:
  "findClusterStackName ps =
     map_option ParameterValue (find (\<lambda>p. ParameterKey p = ''ClusterStackName'') ps)"
  by (induction ps) simp_all

text \<open>
  Claim C8. With a logical service name (a non-empty string), the resources are queried
  by that name: when the answer is empty the resolver fails with \<open>Service not found\<close>,
  an error of kind NotFound, and otherwise it returns the physical identifier of the
  first resource of the answer (the only one when exactly one matches). Without a logical
  name (none, or the empty string, which JavaScript takes as absent) all resources of the
  stack are queried and the resolver returns the physical identifier of the first one of
  type \<open>AWS::ECS::Service\<close>, or fails with \<open>Service not found\<close> when there is none.
\<close>

theorem identity_resolver:
  "(serviceName = Some n \<and> n \<noteq> [] \<and> describeStackResources env stack (Some n) = Inr rs \<longrightarrow>
      (rs = [] \<longrightarrow> getServiceName env stack serviceName = Inl (Error ''Service not found''))
      \<and> (\<forall>r rest. rs = r # rest \<longrightarrow>
            getServiceName env stack serviceName = Inr (PhysicalResourceId r)))
   \<and> ((serviceName = None \<or> serviceName = Some []) \<and> describeStackResources env stack None = Inr rs \<longrightarrow>
      (case find (\<lambda>r. ResourceType r = ''AWS::ECS::Service'') rs of
         Some r \<Rightarrow> getServiceName env stack serviceName = Inr (PhysicalResourceId r)
       | None \<Rightarrow> getServiceName env stack serviceName = Inl (Error ''Service not found'')))
   \<and> NotFound (Error ''Service not found'')"
  by (auto simp: getServiceName_def getServiceName_then_def truthy_string_def andThen_def
        firstService_find NotFound_def split: option.splits)

text \<open>Both ways of resolving on the stacks of the worked example.\<close>

theorem identity_resolver_witness:
  "describeStackResources worked_example ''cluster-A'' (Some ''cluster'') =
     Inr [\<lparr>LogicalResourceId = ''cluster'', PhysicalResourceId = ''i-cluster-phys'',
           ResourceType = ''AWS::ECS::Cluster''\<rparr>]
   \<and> getServiceName worked_example ''cluster-A'' (Some ''cluster'') = Inr ''i-cluster-phys''
   \<and> describeStackResources worked_example ''svc-A'' None =
     Inr [\<lparr>LogicalResourceId = ''service'', PhysicalResourceId = ''svc-phys'',
           ResourceType = ''AWS::ECS::Service''\<rparr>]
   \<and> getServiceName worked_example ''svc-A'' None = Inr ''svc-phys''
   \<and> getServiceName worked_example ''svc-A'' (Some '''') = Inr ''svc-phys''"
proof -
  have q1: "describeStackResources worked_example ''cluster-A'' (Some ''cluster'') =
     Inr [\<lparr>LogicalResourceId = ''cluster'', PhysicalResourceId = ''i-cluster-phys'',
           ResourceType = ''AWS::ECS::Cluster''\<rparr>]"
    by (simp add: example_defs)
  have q2: "describeStackResources worked_example ''svc-A'' None =
     Inr [\<lparr>LogicalResourceId = ''service'', PhysicalResourceId = ''svc-phys'',
           ResourceType = ''AWS::ECS::Service''\<rparr>]"
    by (simp add: example_defs)
  from identity_resolver [of "Some ''cluster''" "''cluster''" worked_example "''cluster-A''"
      "[\<lparr>LogicalResourceId = ''cluster'', PhysicalResourceId = ''i-cluster-phys'',
           ResourceType = ''AWS::ECS::Cluster''\<rparr>]"] q1
  have r1: "getServiceName worked_example ''cluster-A'' (Some ''cluster'') = Inr ''i-cluster-phys''"
    by simp
  from identity_resolver [of None _ worked_example "''svc-A''"
      "[\<lparr>LogicalResourceId = ''service'', PhysicalResourceId = ''svc-phys'',
           ResourceType = ''AWS::ECS::Service''\<rparr>]"] q2
  have r2: "getServiceName worked_example ''svc-A'' None = Inr ''svc-phys''"
    by simp
  from identity_resolver [of "Some ''''" _ worked_example "''svc-A''"
      "[\<lparr>LogicalResourceId = ''service'', PhysicalResourceId = ''svc-phys'',
           ResourceType = ''AWS::ECS::Service''\<rparr>]"] q2
  have r3: "getServiceName worked_example ''svc-A'' (Some '''') = Inr ''svc-phys''"
    by simp
  from q1 q2 r1 r2 r3 show ?thesis by simp
qed

text \<open>
  Claim C10. When the service stack is found, the indirect resolver fails with
  ConfigMissing (\<open>Cluster stack parameter not found\<close>) exactly when no parameter has
  the key \<open>ClusterStackName\<close> or the parameter with that key (the first one the loop
  meets) has the empty string as its value; in particular it does so when every parameter
  with that key has the empty value. The empty string is never returned as the cluster
  stack name.
\<close>

theorem empty_cluster_parameter:
  "(describeStacks env stack = Inr (s # rest) \<longrightarrow>
      (getClusterStackName env stack = Inl ConfigMissing)
        = (case find (\<lambda>p. ParameterKey p = ''ClusterStackName'') (Parameters s) of
             None \<Rightarrow> True
           | Some p \<Rightarrow> ParameterValue p = [])
      \<and> ((\<forall>p\<in>set (Parameters s). ParameterKey p = ''ClusterStackName'' \<longrightarrow> ParameterValue p = [])
           \<longrightarrow> getClusterStackName env stack = Inl ConfigMissing))
   \<and> getClusterStackName env stack \<noteq> Inr []
   \<and> ConfigMissing = Error ''Cluster stack parameter not found''"
proof (intro conjI impI)
  assume q: "describeStacks env stack = Inr (s # rest)"
  show eq: "(getClusterStackName env stack = Inl ConfigMissing)
        = (case find (\<lambda>p. ParameterKey p = ''ClusterStackName'') (Parameters s) of
             None \<Rightarrow> True
           | Some p \<Rightarrow> ParameterValue p = [])"
    using q
    by (simp add: getClusterStackName_def getClusterStackName_then_def andThen_def ConfigMissing_def
          truthy_string_def findClusterStackName_find split: option.splits)
  assume all: "\<forall>p\<in>set (Parameters s). ParameterKey p = ''ClusterStackName'' \<longrightarrow> ParameterValue p = []"
  have "case find (\<lambda>p. ParameterKey p = ''ClusterStackName'') (Parameters s) of
             None \<Rightarrow> True
           | Some p \<Rightarrow> ParameterValue p = []"
    using all by (auto split: option.splits simp: find_Some_iff)
  with eq show "getClusterStackName env stack = Inl ConfigMissing" by simp
next
  show "getClusterStackName env stack \<noteq> Inr []"
    by (auto simp: getClusterStackName_def getClusterStackName_then_def andThen_def
          truthy_string_def Let_def split: sum.splits list.splits option.splits)
  show "ConfigMissing = Error ''Cluster stack parameter not found''"
    by (simp add: ConfigMissing_def)
qed

text \<open>A stack whose \<open>ClusterStackName\<close> parameter is empty.\<close>

theorem empty_cluster_parameter_witness:
  "describeStacks empty_parameter_aws ''svc-A'' =
     Inr (\<lparr>Parameters = [\<lparr>ParameterKey = ''Environment'', ParameterValue = ''prod''\<rparr>,
                          \<lparr>ParameterKey = ''ClusterStackName'', ParameterValue = ''''\<rparr>]\<rparr> # [])
   \<and> find (\<lambda>p. ParameterKey p = ''ClusterStackName'')
        [\<lparr>ParameterKey = ''Environment'', ParameterValue = ''prod''\<rparr>,
         \<lparr>ParameterKey = ''ClusterStackName'', ParameterValue = ''''\<rparr>] =
       Some \<lparr>ParameterKey = ''ClusterStackName'', ParameterValue = ''''\<rparr>
   \<and> getClusterStackName empty_parameter_aws ''svc-A'' = Inl ConfigMissing
   \<and> getClusterStackName empty_parameter_aws ''svc-A'' =
       Inl (Error ''Cluster stack parameter not found'')"
proof -
  let ?s = "\<lparr>Parameters = [\<lparr>ParameterKey = ''Environment'', ParameterValue = ''prod''\<rparr>,
                          \<lparr>ParameterKey = ''ClusterStackName'', ParameterValue = ''''\<rparr>]\<rparr>"
  have q: "describeStacks empty_parameter_aws ''svc-A'' = Inr (?s # [])"
    by (simp add: empty_parameter_aws_def example_defs)
  have f: "find (\<lambda>p. ParameterKey p = ''ClusterStackName'') (Parameters ?s) =
       Some \<lparr>ParameterKey = ''ClusterStackName'', ParameterValue = ''''\<rparr>"
    by simp
  from empty_cluster_parameter [of empty_parameter_aws "''svc-A''" ?s "[]"] q f
  have r: "getClusterStackName empty_parameter_aws ''svc-A'' = Inl ConfigMissing"
    by simp
  from q f r show ?thesis by (simp add: ConfigMissing_def)
qed

text \<open>
  Claim C7. When both resolvers succeed, the task listing is empty and the queries on
  the empty inputs answer with empty lists, the aggregation has no host group and the run
  succeeds having printed nothing, in both versions of the exported function.
\<close>

theorem no_tasks_no_output:
  assumes "getServiceName env serviceStackName serviceName = Inr service"
    and "clusterName_of env serviceStackName clusterStackName = Inr cluster"
    and "listTasks env service cluster = Inr []"
    and "describeTasks env cluster [] = Inr []"
    and "describeContainerInstances env [] cluster = Inr []"
    and "describeInstances env [] = Inr []"
  shows "aggregate containerPorts [] = Inr []
    \<and> forwards env serviceStackName serviceName clusterStackName containerPorts ipv6 startingPort
        = Inr []
    \<and> forwards_index env serviceStackName serviceName clusterStackName containerPorts ipv6
        = Inr []"
  using assms
  by (simp add: forwards_def forwards_index_def hostGroups_of_def taskList_of_def andThen_def
        Promise_all_def aggregate_def Map_keys_def Map_values_def printForwards_def)

text \<open>The stacks of the worked example with no task running.\<close>

theorem no_tasks_no_output_witness:
  "getServiceName (example_aws [] [] [] []) ''svc-A'' None = Inr ''svc-phys''
   \<and> clusterName_of (example_aws [] [] [] []) ''svc-A'' None = Inr ''i-cluster-phys''
   \<and> listTasks (example_aws [] [] [] []) ''svc-phys'' ''i-cluster-phys'' = Inr []
   \<and> describeTasks (example_aws [] [] [] []) ''i-cluster-phys'' [] = Inr []
   \<and> describeContainerInstances (example_aws [] [] [] []) [] ''i-cluster-phys'' = Inr []
   \<and> describeInstances (example_aws [] [] [] []) [] = Inr []
   \<and> forwards (example_aws [] [] [] []) ''svc-A'' None None None False None = Inr []
   \<and> forwards_index (example_aws [] [] [] []) ''svc-A'' None None None True = Inr []"
proof -
  have h1: "getServiceName (example_aws [] [] [] []) ''svc-A'' None = Inr ''svc-phys''"
    by (simp add: chain_defs example_defs)
  have h2: "clusterName_of (example_aws [] [] [] []) ''svc-A'' None = Inr ''i-cluster-phys''"
    by (simp add: chain_defs example_defs)
  have h3: "listTasks (example_aws [] [] [] []) ''svc-phys'' ''i-cluster-phys'' = Inr []"
    by (simp add: example_defs)
  have h4: "describeTasks (example_aws [] [] [] []) ''i-cluster-phys'' [] = Inr []"
    by (simp add: example_defs)
  have h5: "describeContainerInstances (example_aws [] [] [] []) [] ''i-cluster-phys'' = Inr []"
    by (simp add: example_defs)
  have h6: "describeInstances (example_aws [] [] [] []) [] = Inr []"
    by (simp add: example_defs)
  from no_tasks_no_output [OF h1 h2 h3 h4 h5 h6, of None False None]
    no_tasks_no_output [OF h1 h2 h3 h4 h5 h6, of None True None] h1 h2 h3 h4 h5 h6
  show ?thesis by simp
qed

section \<open>The command emitter\<close>

lemma increment_exact: "n < 2 ^ 53 \<Longrightarrow> increment n = Suc n"
  by (simp add: increment_def)

lemma countFrom_exact: "p + n \<le> 2 ^ 53 \<Longrightarrow> countFrom p n = [p..<p + n]"
proof (induction n arbitrary: p)
  case 0
  show ?case by simp
next
  case (Suc n)
  from Suc.prems have below: "p < 2 ^ 53" and rest: "Suc p + n \<le> 2 ^ 53"
    by simp_all
  have "[p..<p + Suc n] = p # [Suc p..<Suc p + n]"
    using upt_conv_Cons [of p "p + Suc n"] by simp
  then show ?case
    by (simp add: increment_exact [OF below] Suc.IH [OF rest])
qed

lemma advance_exact: "p + n \<le> 2 ^ 53 \<Longrightarrow> advance p n = p + n"
proof (induction n arbitrary: p)
  case 0
  show ?case by simp
next
  case (Suc n)
  from Suc.prems have below: "p < 2 ^ 53" and rest: "Suc p + n \<le> 2 ^ 53"
    by simp_all
  show ?case
    by (simp add: increment_exact [OF below] Suc.IH [OF rest])
qed

lemma advance_add: "advance p (m + n) = advance (advance p m) n"
  by (induction m arbitrary: p) simp_all

lemma portsForEach_clauses:
  "portsForEach ps (str, port) =
     (str @ concat (map clause (zip (countFrom port (length ps)) (Map_values ps))),
      advance port (length ps))"
proof (induction ps arbitrary: str port)
  case Nil
  show ?case by (simp add: Map_values_def)
next
  case (Cons e ps)
  obtain k v where e: "e = (k, v)" by (cases e)
  show ?case
    by (simp add: e Cons.IH Map_values_def clause_def)
qed

lemma byHostPortForEach_lines:
  "byHostPortForEach es console = console @ map legendLine es"
proof (induction es arbitrary: console)
  case Nil
  show ?case by simp
next
  case (Cons e es)
  obtain k v where e: "e = (k, v)" by (cases e)
  show ?case by (simp add: e Cons.IH legendLine_def)
qed

lemma clauseCount_Cons: "clauseCount ((k, v) # groups) = length (ports v) + clauseCount groups"
  by (simp add: clauseCount_def)

lemma containerInstancesForEach_rendered:
  "containerInstancesForEach ips groups (port, console) =
     (advance port (clauseCount groups), console @ rendered ips groups port)"
proof (induction groups arbitrary: port console)
  case Nil
  show ?case by (simp add: clauseCount_def rendered_def)
next
  case (Cons g groups)
  obtain k v where g: "g = (k, v)" by (cases g)
  show ?case
    unfolding g clauseCount_Cons advance_add
    by (simp add: Cons.IH portsForEach_clauses byHostPortForEach_lines
          rendered_def block_def sshLine_def)
qed

lemma local_ports_consecutive:
  "p + clauseCount groups \<le> 2 ^ 53 \<Longrightarrow>
     concat (map (map fst) (numbering p groups)) = [p..<p + clauseCount groups]"
proof (induction groups arbitrary: p)
  case Nil
  show ?case by (simp add: clauseCount_def)
next
  case (Cons g groups)
  obtain k v where g: "g = (k, v)" by (cases g)
  let ?n = "length (ports v)"
  from Cons.prems have here_ok: "p + ?n \<le> 2 ^ 53"
    and rest_ok: "(p + ?n) + clauseCount groups \<le> 2 ^ 53"
    by (simp_all add: g clauseCount_Cons)
  have here: "map fst (zip (countFrom p ?n) (Map_values (ports v))) = [p..<p + ?n]"
    by (simp add: countFrom_exact [OF here_ok] Map_values_def)
  have split: "[p..<p + ?n + clauseCount groups] = [p..<p + ?n] @ [p + ?n..<p + ?n + clauseCount groups]"
    by (rule upt_add_eq_append) simp
  have "concat (map (map fst) (numbering p (g # groups))) =
          [p..<p + ?n] @ concat (map (map fst) (numbering (p + ?n) groups))"
    unfolding g numbering.simps list.map concat.simps here advance_exact [OF here_ok] ..
  also have "\<dots> = [p..<p + ?n] @ [p + ?n..<p + ?n + clauseCount groups]"
    by (simp only: Cons.IH [OF rest_ok])
  also have "\<dots> = [p..<p + clauseCount (g # groups)]"
    unfolding g clauseCount_Cons using split by (simp only: add.assoc)
  finally show ?case .
qed

lemma printForwards_rendered:
  "printForwards ipv6 startingPort groups Reservations =
     andThen (reservationsLoop ipv6 Reservations [])
       (\<lambda>ips. Inr (rendered ips groups (firstPort startingPort)))"
  by (simp add: printForwards_def containerInstancesForEach_rendered)

lemma forwards_printForwards:
  "forwards env a b c cps ipv6 startingPort =
     andThen (hostGroups_of env a b c cps) (\<lambda>(groups, rs). printForwards ipv6 startingPort groups rs)"
  by (simp add: forwards_def)

lemma forwards_index_printForwards:
  "forwards_index env a b c cps ipv6 =
     andThen (hostGroups_of env a b c cps) (\<lambda>(groups, rs). printForwards ipv6 None groups rs)"
  by (simp add: forwards_index_def printForwards_def firstPort_def truthy_number_def)

lemma andThen_Inr:
  "andThen p f = Inr y \<longleftrightarrow> (\<exists>x. p = Inr x \<and> f x = Inr y)"
  by (cases p) (simp_all add: andThen_def)

text \<open>
  Claim C2, as amended. A run that reaches output prints, for each group in insertion
  order, the command line built from the group's clauses and then its legend, where the
  clauses are numbered by \<open>numbering\<close> from the first port: the configured starting
  port when one is given (a number other than 0, which JavaScript takes as absent),
  49152 otherwise, and always 49152 in the version without a starting port. As long as
  the first port plus the number of clauses does not exceed \<open>2^53\<close>, the range in
  which a JavaScript number counts exactly, the local ports of all clauses of all command
  lines, in print order, are the consecutive numbers from the first port on: strictly
  increasing, one more after each clause, with no reset between groups.
\<close>

theorem local_ports_increase:
  "(forwards env a b c cps ipv6 startingPort = Inr lines \<longrightarrow>
      (\<exists>groups rs ips. hostGroups_of env a b c cps = Inr (groups, rs)
         \<and> reservationsLoop ipv6 rs [] = Inr ips
         \<and> lines = concat (map2 (block ips) groups (numbering (firstPort startingPort) groups))))
   \<and> (forwards_index env a b c cps ipv6 = Inr lines' \<longrightarrow>
      (\<exists>groups rs ips. hostGroups_of env a b c cps = Inr (groups, rs)
         \<and> reservationsLoop ipv6 rs [] = Inr ips
         \<and> lines' = concat (map2 (block ips) groups (numbering 49152 groups))))
   \<and> (p + clauseCount groups \<le> 2 ^ 53 \<longrightarrow>
        concat (map (map fst) (numbering p groups)) = [p..<p + clauseCount groups]
        \<and> sorted_wrt (<) (concat (map (map fst) (numbering p groups))))
   \<and> firstPort None = 49152
   \<and> (q \<noteq> 0 \<longrightarrow> firstPort (Some q) = q)
   \<and> firstPort (Some 0) = 49152"
proof (intro conjI impI)
  assume run: "forwards env a b c cps ipv6 startingPort = Inr lines"
  then obtain x where x: "hostGroups_of env a b c cps = Inr x"
      "(case x of (groups, rs) \<Rightarrow> printForwards ipv6 startingPort groups rs) = Inr lines"
    unfolding forwards_printForwards andThen_Inr by blast
  obtain groups rs where gr: "x = (groups, rs)" by (cases x)
  from x(2) obtain ips where ips: "reservationsLoop ipv6 rs [] = Inr ips"
      "Inr (rendered ips groups (firstPort startingPort)) = (Inr lines :: error + string list)"
    unfolding gr prod.case printForwards_rendered andThen_Inr by blast
  from ips(2) have "lines = concat (map2 (block ips) groups (numbering (firstPort startingPort) groups))"
    by (simp add: rendered_def)
  with x(1) ips(1) gr
  show "\<exists>groups rs ips. hostGroups_of env a b c cps = Inr (groups, rs)
         \<and> reservationsLoop ipv6 rs [] = Inr ips
         \<and> lines = concat (map2 (block ips) groups (numbering (firstPort startingPort) groups))"
    by blast
next
  assume run: "forwards_index env a b c cps ipv6 = Inr lines'"
  then obtain x where x: "hostGroups_of env a b c cps = Inr x"
      "(case x of (groups, rs) \<Rightarrow> printForwards ipv6 None groups rs) = Inr lines'"
    unfolding forwards_index_printForwards andThen_Inr by blast
  obtain groups rs where gr: "x = (groups, rs)" by (cases x)
  from x(2) obtain ips where ips: "reservationsLoop ipv6 rs [] = Inr ips"
      "Inr (rendered ips groups (firstPort None)) = (Inr lines' :: error + string list)"
    unfolding gr prod.case printForwards_rendered andThen_Inr by blast
  from ips(2) have "lines' = concat (map2 (block ips) groups (numbering 49152 groups))"
    by (simp add: rendered_def firstPort_def truthy_number_def)
  with x(1) ips(1) gr
  show "\<exists>groups rs ips. hostGroups_of env a b c cps = Inr (groups, rs)
         \<and> reservationsLoop ipv6 rs [] = Inr ips
         \<and> lines' = concat (map2 (block ips) groups (numbering 49152 groups))"
    by blast
next
  assume bound: "p + clauseCount groups \<le> 2 ^ 53"
  show "concat (map (map fst) (numbering p groups)) = [p..<p + clauseCount groups]"
    by (rule local_ports_consecutive [OF bound])
  show "sorted_wrt (<) (concat (map (map fst) (numbering p groups)))"
    by (simp add: local_ports_consecutive [OF bound])
next
  show "firstPort None = 49152" by (simp add: firstPort_def truthy_number_def)
  show "firstPort (Some 0) = 49152" by (simp add: firstPort_def truthy_number_def)
  assume "q \<noteq> 0"
  then show "firstPort (Some q) = q" by (simp add: firstPort_def truthy_number_def)
qed

text \<open>
  Two hosts with one binding each, counting from 5000: the second command line carries
  on with 5001.
\<close>

theorem local_ports_increase_witness:
  "forwards two_hosts ''svc-A'' None None None False (Some 5000) =
     Inr [''ssh -L5000:localhost:32768 ec2-user@1.2.3.4'', ''32768'' @ [CHR 0x09] @ ''web:80'',
          ''ssh -L5001:localhost:32769 ec2-user@5.6.7.8'', ''32769'' @ [CHR 0x09] @ ''tls:443'']
   \<and> forwards_index two_hosts ''svc-A'' None None None False =
     Inr [''ssh -L49152:localhost:32768 ec2-user@1.2.3.4'', ''32768'' @ [CHR 0x09] @ ''web:80'',
          ''ssh -L49153:localhost:32769 ec2-user@5.6.7.8'', ''32769'' @ [CHR 0x09] @ ''tls:443'']
   \<and> (5000 :: nat) \<noteq> 0
   \<and> firstPort (Some 5000) = 5000
   \<and> 5000 + clauseCount
         [(''ci-1'', \<lparr>ports = [(80, 32768)], byHostPort = [], instanceId = None, ipAddress = None\<rparr>),
          (''ci-2'', \<lparr>ports = [(443, 32769)], byHostPort = [], instanceId = None, ipAddress = None\<rparr>)]
       \<le> 2 ^ 53
   \<and> concat (map (map fst) (numbering 5000
         [(''ci-1'', \<lparr>ports = [(80, 32768)], byHostPort = [], instanceId = None, ipAddress = None\<rparr>),
          (''ci-2'', \<lparr>ports = [(443, 32769)], byHostPort = [], instanceId = None, ipAddress = None\<rparr>)]))
       = [5000, 5001]"
proof -
  have run: "forwards two_hosts ''svc-A'' None None None False (Some 5000) =
     Inr [''ssh -L5000:localhost:32768 ec2-user@1.2.3.4'', ''32768'' @ [CHR 0x09] @ ''web:80'',
          ''ssh -L5001:localhost:32769 ec2-user@5.6.7.8'', ''32769'' @ [CHR 0x09] @ ''tls:443'']"
    by (simp add: chain_defs example_defs two_hosts_def tls_task_def)
  have run': "forwards_index two_hosts ''svc-A'' None None None False =
     Inr [''ssh -L49152:localhost:32768 ec2-user@1.2.3.4'', ''32768'' @ [CHR 0x09] @ ''web:80'',
          ''ssh -L49153:localhost:32769 ec2-user@5.6.7.8'', ''32769'' @ [CHR 0x09] @ ''tls:443'']"
    by (simp add: chain_defs example_defs two_hosts_def tls_task_def)
  let ?groups = "[(''ci-1'', \<lparr>ports = [(80, 32768)], byHostPort = [], instanceId = None, ipAddress = None\<rparr>),
          (''ci-2'', \<lparr>ports = [(443, 32769)], byHostPort = [], instanceId = None, ipAddress = None\<rparr>)]"
  have nz: "(5000 :: nat) \<noteq> 0" by simp
  have bound: "5000 + clauseCount ?groups \<le> 2 ^ 53"
    by (simp add: clauseCount_def)
  from local_ports_increase [of two_hosts "''svc-A''" None None None False "Some 5000" _ _ 5000
      ?groups 5000] nz bound
  have "firstPort (Some 5000) = 5000
      \<and> concat (map (map fst) (numbering 5000 ?groups)) = [5000..<5000 + clauseCount ?groups]"
    by blast
  moreover have "[5000..<5000 + clauseCount ?groups] = [5000, 5001]"
    by (simp add: clauseCount_def upt_rec)
  ultimately show ?thesis using run run' nz bound by simp
qed

text \<open>
  Claim C2 as stated fails on two inputs. A configured starting port of 0 is not used:
  \<open>startingPort || 49152\<close> takes it as absent and the first clause has the local port
  49152. And from the starting port \<open>2^53\<close> the counter does not move, since
  \<open>2^53 + 1\<close> is rounded back to \<open>2^53\<close>: the two command lines use the same local
  port.
\<close>

theorem local_ports_counterexample:
  "forwards two_hosts ''svc-A'' None None None False (Some 0) =
     Inr [''ssh -L49152:localhost:32768 ec2-user@1.2.3.4'', ''32768'' @ [CHR 0x09] @ ''web:80'',
          ''ssh -L49153:localhost:32769 ec2-user@5.6.7.8'', ''32769'' @ [CHR 0x09] @ ''tls:443'']
   \<and> (2 :: nat) ^ 53 = 9007199254740992
   \<and> forwards two_hosts ''svc-A'' None None None False (Some 9007199254740992) =
     Inr [''ssh -L9007199254740992:localhost:32768 ec2-user@1.2.3.4'',
          ''32768'' @ [CHR 0x09] @ ''web:80'',
          ''ssh -L9007199254740992:localhost:32769 ec2-user@5.6.7.8'',
          ''32769'' @ [CHR 0x09] @ ''tls:443'']"
proof -
  have zero: "forwards two_hosts ''svc-A'' None None None False (Some 0) =
     Inr [''ssh -L49152:localhost:32768 ec2-user@1.2.3.4'', ''32768'' @ [CHR 0x09] @ ''web:80'',
          ''ssh -L49153:localhost:32769 ec2-user@5.6.7.8'', ''32769'' @ [CHR 0x09] @ ''tls:443'']"
    by (simp add: chain_defs example_defs two_hosts_def tls_task_def)
  have large: "forwards two_hosts ''svc-A'' None None None False (Some 9007199254740992) =
     Inr [''ssh -L9007199254740992:localhost:32768 ec2-user@1.2.3.4'',
          ''32768'' @ [CHR 0x09] @ ''web:80'',
          ''ssh -L9007199254740992:localhost:32769 ec2-user@5.6.7.8'',
          ''32769'' @ [CHR 0x09] @ ''tls:443'']"
    by (simp add: chain_defs example_defs two_hosts_def tls_task_def)
  have power: "(2 :: nat) ^ 53 = 9007199254740992" by simp
  from zero power large show ?thesis by simp
qed

section \<open>Addresses\<close>

lemma instancesLoop_ipv4:
  "instancesLoop False is ips = Inr (setAll InstanceId PublicIpAddress ips is)"
  by (induction "is" arbitrary: ips) (simp_all add: setAll_Nil setAll_Cons instanceAddress_def andThen_def)

lemma reservationsLoop_ipv4:
  "reservationsLoop False rs ips = Inr (setAll InstanceId PublicIpAddress ips (allInstances rs))"
proof (induction rs arbitrary: ips)
  case Nil
  show ?case by (simp add: allInstances_def setAll_Nil)
next
  case (Cons r rs)
  show ?case
    by (simp add: Cons.IH instancesLoop_ipv4 andThen_def allInstances_def setAll_def)
qed

lemma instanceAddress_ipv6:
  "NetworkInterfaces i \<noteq> [] \<Longrightarrow>
     instanceAddress True i = (if lacksIpv6 i then Inl NoAddress else Inr (firstIpv6 i))"
  by (auto simp: instanceAddress_def lacksIpv6_def firstIpv6_def NoAddress_def
        split: list.splits option.splits)

lemma instancesLoop_ipv6:
  "\<forall>i\<in>set is. NetworkInterfaces i \<noteq> [] \<Longrightarrow>
     instancesLoop True is ips =
       (if \<exists>i\<in>set is. lacksIpv6 i then Inl NoAddress
        else Inr (setAll InstanceId firstIpv6 ips is))"
  by (induction "is" arbitrary: ips)
     (simp_all add: setAll_Nil setAll_Cons instanceAddress_ipv6 andThen_def)

lemma reservationsLoop_ipv6:
  "\<forall>i\<in>set (allInstances rs). NetworkInterfaces i \<noteq> [] \<Longrightarrow>
     reservationsLoop True rs ips =
       (if \<exists>i\<in>set (allInstances rs). lacksIpv6 i then Inl NoAddress
        else Inr (setAll InstanceId firstIpv6 ips (allInstances rs)))"
proof (induction rs arbitrary: ips)
  case Nil
  show ?case by (simp add: allInstances_def setAll_Nil)
next
  case (Cons r rs)
  have here: "\<forall>i\<in>set (Instances r). NetworkInterfaces i \<noteq> []"
    and rest: "\<forall>i\<in>set (allInstances rs). NetworkInterfaces i \<noteq> []"
    using Cons.prems by (simp_all add: allInstances_def)
  have all: "allInstances (r # rs) = Instances r @ allInstances rs"
    by (simp add: allInstances_def)
  show ?case
    unfolding all
    by (auto simp: Cons.IH [OF rest] instancesLoop_ipv6 [OF here] andThen_def setAll_def)
qed

lemma firstIpv6_address:
  "NetworkInterfaces i \<noteq> [] \<Longrightarrow> \<not> lacksIpv6 i \<Longrightarrow>
     \<exists>ni nis a as. NetworkInterfaces i = ni # nis \<and> Ipv6Addresses ni = Some (a # as)
        \<and> firstIpv6 i = Some (Ipv6Address a)"
  by (auto simp: lacksIpv6_def firstIpv6_def split: list.splits option.splits)

lemma getIp_setAll:
  "getIp (setAll InstanceId val [] is) (Some iid) =
     (if \<exists>i\<in>set is. InstanceId i = iid then val (last (filter (\<lambda>i. InstanceId i = iid) is))
      else None)"
  by (simp add: getIp_def Map_get_setAll)

lemma last_filter_in:
  "\<exists>i\<in>set is. P i \<Longrightarrow> last (filter P is) \<in> set is \<and> P (last (filter P is))"
proof -
  assume "\<exists>i\<in>set is. P i"
  then have "filter P is \<noteq> []" by (simp add: filter_empty_conv)
  then have "last (filter P is) \<in> set (filter P is)" by (rule last_in_set)
  then show ?thesis by simp
qed


lemma forwards_of_hostGroups:
  "hostGroups_of env a b c cps = Inr (groups, rs) \<Longrightarrow>
     forwards env a b c cps ipv6 startingPort = printForwards ipv6 startingPort groups rs
     \<and> forwards_index env a b c cps ipv6 = printForwards ipv6 None groups rs"
  by (simp add: forwards_printForwards forwards_index_printForwards andThen_def)

text \<open>
  The lookup of IPv6 addresses when every instance of the answer has a first network
  interface: if for some instance the IPv6 address list of that interface is absent or
  empty, the whole run fails with NoAddress; otherwise the address recorded for each
  instance is the first IPv6 address of its first network interface, and the run goes
  on to print.
\<close>

lemma ipv6_address_or_failure:
  assumes interfaces: "\<forall>i\<in>set (allInstances rs). NetworkInterfaces i \<noteq> []"
  shows "((\<exists>i\<in>set (allInstances rs). lacksIpv6 i) \<longrightarrow>
            printForwards True startingPort groups rs = Inl NoAddress
            \<and> (hostGroups_of env a b c cps = Inr (groups, rs) \<longrightarrow>
                 forwards env a b c cps True startingPort = Inl NoAddress
                 \<and> forwards_index env a b c cps True = Inl NoAddress))
     \<and> (\<not> (\<exists>i\<in>set (allInstances rs). lacksIpv6 i) \<longrightarrow>
          (\<exists>ips. reservationsLoop True rs [] = Inr ips
             \<and> set (Map_keys ips) = InstanceId ` set (allInstances rs)
             \<and> (\<forall>(iid, address)\<in>set ips.
                   \<exists>i\<in>set (allInstances rs). \<exists>ni nis a as.
                      InstanceId i = iid \<and> NetworkInterfaces i = ni # nis
                      \<and> Ipv6Addresses ni = Some (a # as) \<and> address = Some (Ipv6Address a))
             \<and> printForwards True startingPort groups rs
                 = Inr (rendered ips groups (firstPort startingPort))))
     \<and> NoAddress = Error ''No IPv6 address''"
proof (intro conjI impI)
  assume lack: "\<exists>i\<in>set (allInstances rs). lacksIpv6 i"
  then have loop: "reservationsLoop True rs [] = Inl NoAddress"
    by (simp add: reservationsLoop_ipv6 [OF interfaces])
  then show fail: "printForwards True startingPort groups rs = Inl NoAddress"
    by (simp add: printForwards_rendered andThen_def)
  from loop have fail': "printForwards True None groups rs = Inl NoAddress"
    by (simp add: printForwards_rendered andThen_def)
  assume up: "hostGroups_of env a b c cps = Inr (groups, rs)"
  show "forwards env a b c cps True startingPort = Inl NoAddress"
    using forwards_of_hostGroups [OF up, of True startingPort] fail by simp
  show "forwards_index env a b c cps True = Inl NoAddress"
    using forwards_of_hostGroups [OF up, of True startingPort] fail' by simp
next
  assume have_all: "\<not> (\<exists>i\<in>set (allInstances rs). lacksIpv6 i)"
  let ?ips = "setAll InstanceId firstIpv6 [] (allInstances rs)"
  have loop: "reservationsLoop True rs [] = Inr ?ips"
    using have_all by (simp add: reservationsLoop_ipv6 [OF interfaces])
  have keys: "set (Map_keys ?ips) = InstanceId ` set (allInstances rs)"
    by (simp add: Map_keys_def keys_setAll)
  have entries: "\<forall>(iid, address)\<in>set ?ips.
                   \<exists>i\<in>set (allInstances rs). \<exists>ni nis a as.
                      InstanceId i = iid \<and> NetworkInterfaces i = ni # nis
                      \<and> Ipv6Addresses ni = Some (a # as) \<and> address = Some (Ipv6Address a)"
  proof (clarify)
    fix iid address assume "(iid, address) \<in> set ?ips"
    from entry_setAll [OF this] obtain i where i: "i \<in> set (allInstances rs)"
        "iid = InstanceId i" "address = firstIpv6 i"
      by auto
    from firstIpv6_address [of i] interfaces have_all i(1)
    obtain ni nis a as where "NetworkInterfaces i = ni # nis" "Ipv6Addresses ni = Some (a # as)"
        "firstIpv6 i = Some (Ipv6Address a)"
      by blast
    with i show "\<exists>i\<in>set (allInstances rs). \<exists>ni nis a as.
                      InstanceId i = iid \<and> NetworkInterfaces i = ni # nis
                      \<and> Ipv6Addresses ni = Some (a # as) \<and> address = Some (Ipv6Address a)"
      by auto
  qed
  have out: "printForwards True startingPort groups rs
                 = Inr (rendered ?ips groups (firstPort startingPort))"
    by (simp add: printForwards_rendered loop andThen_def)
  from loop keys entries out
  show "\<exists>ips. reservationsLoop True rs [] = Inr ips
             \<and> set (Map_keys ips) = InstanceId ` set (allInstances rs)
             \<and> (\<forall>(iid, address)\<in>set ips.
                   \<exists>i\<in>set (allInstances rs). \<exists>ni nis a as.
                      InstanceId i = iid \<and> NetworkInterfaces i = ni # nis
                      \<and> Ipv6Addresses ni = Some (a # as) \<and> address = Some (Ipv6Address a))
             \<and> printForwards True startingPort groups rs
                 = Inr (rendered ips groups (firstPort startingPort))"
    by blast
next
  show "NoAddress = Error ''No IPv6 address''" by (simp add: NoAddress_def)
qed

text \<open>
  The instance of the worked example with an interface without an address list, with an
  empty list, and with one address.
\<close>

lemma ipv6_address_or_failure_example:
  "NetworkInterfaces (instance1 (Some ''1.2.3.4'') [\<lparr>Ipv6Addresses = None\<rparr>]) \<noteq> []
   \<and> lacksIpv6 (instance1 (Some ''1.2.3.4'') [\<lparr>Ipv6Addresses = None\<rparr>])
   \<and> forwards worked_example ''svc-A'' None None None True None = Inl NoAddress
   \<and> forwards worked_example ''svc-A'' None None None True None = Inl (Error ''No IPv6 address'')
   \<and> lacksIpv6 (instance1 None [\<lparr>Ipv6Addresses = Some []\<rparr>])
   \<and> forwards (one_instance None [\<lparr>Ipv6Addresses = Some []\<rparr>]) ''svc-A'' None None None True None
       = Inl NoAddress
   \<and> \<not> lacksIpv6 (instance1 None [\<lparr>Ipv6Addresses = Some [\<lparr>Ipv6Address = ''2001:db8::1''\<rparr>]\<rparr>])
   \<and> printForwards True None [(''ci-1'', \<lparr>ports = [(80, 32768)],
            byHostPort = [(32768, \<lparr>containerName = ''web'', legend_containerPort = 80\<rparr>)],
            instanceId = Some ''i-0001'', ipAddress = None\<rparr>)]
         [\<lparr>Instances = [instance1 None [\<lparr>Ipv6Addresses = Some [\<lparr>Ipv6Address = ''2001:db8::1''\<rparr>]\<rparr>]]\<rparr>]
       = Inr [''ssh -L49152:localhost:32768 ec2-user@2001:db8::1'',
              ''32768'' @ [CHR 0x09] @ ''web:80'']"
proof -
  let ?g = "[(''ci-1'', \<lparr>ports = [(80, 32768)],
            byHostPort = [(32768, \<lparr>containerName = ''web'', legend_containerPort = 80\<rparr>)],
            instanceId = Some ''i-0001'', ipAddress = None\<rparr>)]"
  let ?absent = "[\<lparr>Instances = [instance1 (Some ''1.2.3.4'') [\<lparr>Ipv6Addresses = None\<rparr>]]\<rparr>]"
  let ?empty = "[\<lparr>Instances = [instance1 None [\<lparr>Ipv6Addresses = Some []\<rparr>]]\<rparr>]"
  let ?good = "[\<lparr>Instances = [instance1 None
                 [\<lparr>Ipv6Addresses = Some [\<lparr>Ipv6Address = ''2001:db8::1''\<rparr>]\<rparr>]]\<rparr>]"
  have i1: "\<forall>i\<in>set (allInstances ?absent). NetworkInterfaces i \<noteq> []"
    and i2: "\<forall>i\<in>set (allInstances ?empty). NetworkInterfaces i \<noteq> []"
    and i3: "\<forall>i\<in>set (allInstances ?good). NetworkInterfaces i \<noteq> []"
    by (simp_all add: allInstances_def instance1_def)
  have l1: "\<exists>i\<in>set (allInstances ?absent). lacksIpv6 i"
    and l2: "\<exists>i\<in>set (allInstances ?empty). lacksIpv6 i"
    and l3: "\<not> (\<exists>i\<in>set (allInstances ?good). lacksIpv6 i)"
    by (simp_all add: allInstances_def instance1_def lacksIpv6_def)
  have u1: "hostGroups_of worked_example ''svc-A'' None None None = Inr (?g, ?absent)"
    by (simp add: chain_defs example_defs)
  have u2: "hostGroups_of (one_instance None [\<lparr>Ipv6Addresses = Some []\<rparr>]) ''svc-A'' None None None
              = Inr (?g, ?empty)"
    by (simp add: chain_defs example_defs one_instance_def)
  from ipv6_address_or_failure [OF i1, of None ?g worked_example "''svc-A''" None None None] l1 u1
  have r1: "forwards worked_example ''svc-A'' None None None True None = Inl NoAddress"
    by blast
  from ipv6_address_or_failure [OF i2, of None ?g "one_instance None [\<lparr>Ipv6Addresses = Some []\<rparr>]"
      "''svc-A''" None None None] l2 u2
  have r2: "forwards (one_instance None [\<lparr>Ipv6Addresses = Some []\<rparr>]) ''svc-A'' None None None True None
              = Inl NoAddress"
    by blast
  from ipv6_address_or_failure [OF i3, of None ?g] l3
  obtain ips where ips: "reservationsLoop True ?good [] = Inr ips"
      "printForwards True None ?g ?good = Inr (rendered ips ?g (firstPort None))"
    by blast
  from ips(1) have "ips = [(''i-0001'', Some ''2001:db8::1'')]"
    by (simp add: instance1_def instanceAddress_def andThen_def)
  with ips(2) have r3: "printForwards True None ?g ?good
       = Inr [''ssh -L49152:localhost:32768 ec2-user@2001:db8::1'',
              ''32768'' @ [CHR 0x09] @ ''web:80'']"
    by (simp add: rendered_def block_def sshLine_def legendLine_def clause_def firstPort_def
          truthy_number_def getIp_def string_of_value_def digit_char_def Map_values_def)
  from r1 r2 r3 l1 l2 l3 i1 show ?thesis
    by (simp add: allInstances_def NoAddress_def)
qed

text \<open>
  Claim C5. When IPv6 addressing was requested, an instance whose first network
  interface is absent, or whose first interface has an absent or empty IPv6 address
  list, is to make the whole run fail with NoAddress (\<open>No IPv6 address\<close>). The code
  does so for the address list. For an instance with no network interface it reads
  \<open>Ipv6Addresses\<close> of the missing interface before its own test of the addresses, and
  the run fails with a \<open>TypeError\<close> instead, in both versions of the exported
  function. The instances are visited in the order of the answer and the first failure
  ends the run: an instance without addresses before the one without interface gives
  NoAddress, the other order gives the \<open>TypeError\<close>.
\<close>

theorem ipv6_missing_interface_type_error:
  "NetworkInterfaces (instance1 (Some ''1.2.3.4'') []) = []
   \<and> forwards (one_instance (Some ''1.2.3.4'') []) ''svc-A'' None None None True None = Inl TypeError
   \<and> forwards_index (one_instance (Some ''1.2.3.4'') []) ''svc-A'' None None None True = Inl TypeError
   \<and> TypeError \<noteq> NoAddress
   \<and> forwards (one_instance (Some ''1.2.3.4'') [\<lparr>Ipv6Addresses = None\<rparr>]) ''svc-A''
         None None None True None = Inl NoAddress
   \<and> forwards (one_instance (Some ''1.2.3.4'') [\<lparr>Ipv6Addresses = Some []\<rparr>]) ''svc-A''
         None None None True None = Inl NoAddress
   \<and> forwards
         (example_aws [''task-1''] [web_task] [host1]
            [\<lparr>Instances = [instance1 None [\<lparr>Ipv6Addresses = None\<rparr>], instance1 None []]\<rparr>])
         ''svc-A'' None None None True None = Inl NoAddress
   \<and> forwards
         (example_aws [''task-1''] [web_task] [host1]
            [\<lparr>Instances = [instance1 None [], instance1 None [\<lparr>Ipv6Addresses = None\<rparr>]]\<rparr>])
         ''svc-A'' None None None True None = Inl TypeError"
  by (simp add: chain_defs example_defs one_instance_def NoAddress_def)

text \<open>
  Claim C6, as amended. When IPv6 addressing was not requested, the address lookup never
  fails, whatever the public addresses are, and the run prints the lines of every group.
  The command line of a group ends with \<open>ec2-user@\<close> and the address found for the
  group's instance: when the instance has no public address the line ends with
  \<open>ec2-user@undefined\<close>, and when its public address is the empty string the line
  ends with \<open>ec2-user@\<close>.
\<close>

theorem ipv4_never_fails:
  "reservationsLoop False rs [] = Inr (setAll InstanceId PublicIpAddress [] (allInstances rs))
   \<and> printForwards False startingPort groups rs =
       Inr (concat (map2 (block (setAll InstanceId PublicIpAddress [] (allInstances rs))) groups
              (numbering (firstPort startingPort) groups)))
   \<and> (hostGroups_of env a b c cps = Inr (groups, rs) \<longrightarrow>
        forwards env a b c cps False startingPort = printForwards False startingPort groups rs
        \<and> forwards_index env a b c cps False = printForwards False None groups rs)
   \<and> block ips (k, v) clauses =
       sshLine clauses (getIp ips (instanceId v)) # map legendLine (byHostPort v)
   \<and> ((\<forall>i\<in>set (allInstances rs). InstanceId i = iid \<longrightarrow> PublicIpAddress i = None) \<longrightarrow>
        getIp (setAll InstanceId PublicIpAddress [] (allInstances rs)) (Some iid) = None)
   \<and> ((\<exists>i\<in>set (allInstances rs). InstanceId i = iid)
        \<and> (\<forall>i\<in>set (allInstances rs). InstanceId i = iid \<longrightarrow> PublicIpAddress i = Some [])
       \<longrightarrow> getIp (setAll InstanceId PublicIpAddress [] (allInstances rs)) (Some iid) = Some [])
   \<and> sshLine clauses None = ''ssh'' @ concat (map clause clauses) @ '' ec2-user@undefined''
   \<and> sshLine clauses (Some []) = ''ssh'' @ concat (map clause clauses) @ '' ec2-user@''"
proof (intro conjI impI)
  show loop: "reservationsLoop False rs [] =
                Inr (setAll InstanceId PublicIpAddress [] (allInstances rs))"
    by (rule reservationsLoop_ipv4)
  show "printForwards False startingPort groups rs =
       Inr (concat (map2 (block (setAll InstanceId PublicIpAddress [] (allInstances rs))) groups
              (numbering (firstPort startingPort) groups)))"
    by (simp add: printForwards_rendered loop andThen_def rendered_def)
  show "block ips (k, v) clauses =
       sshLine clauses (getIp ips (instanceId v)) # map legendLine (byHostPort v)"
    by (simp add: block_def)
  show "sshLine clauses None = ''ssh'' @ concat (map clause clauses) @ '' ec2-user@undefined''"
    by (simp add: sshLine_def string_of_value_def)
  show "sshLine clauses (Some []) = ''ssh'' @ concat (map clause clauses) @ '' ec2-user@''"
    by (simp add: sshLine_def string_of_value_def)
  {
    assume up: "hostGroups_of env a b c cps = Inr (groups, rs)"
    show "forwards env a b c cps False startingPort = printForwards False startingPort groups rs"
      using forwards_of_hostGroups [OF up] by simp
    show "forwards_index env a b c cps False = printForwards False None groups rs"
      using forwards_of_hostGroups [OF up] by simp
  }
  {
    assume missing: "\<forall>i\<in>set (allInstances rs). InstanceId i = iid \<longrightarrow> PublicIpAddress i = None"
    show "getIp (setAll InstanceId PublicIpAddress [] (allInstances rs)) (Some iid) = None"
      using missing last_filter_in [of "allInstances rs" "\<lambda>i. InstanceId i = iid"]
      by (simp add: getIp_setAll)
  }
  assume empty: "(\<exists>i\<in>set (allInstances rs). InstanceId i = iid)
        \<and> (\<forall>i\<in>set (allInstances rs). InstanceId i = iid \<longrightarrow> PublicIpAddress i = Some [])"
  show "getIp (setAll InstanceId PublicIpAddress [] (allInstances rs)) (Some iid) = Some []"
    using empty last_filter_in [of "allInstances rs" "\<lambda>i. InstanceId i = iid"]
    by (simp add: getIp_setAll)
qed

text \<open>The instance of the worked example without a public address, and with an empty one.\<close>

theorem ipv4_never_fails_witness:
  "PublicIpAddress (instance1 None []) = None
   \<and> getIp (setAll InstanceId PublicIpAddress [] (allInstances [\<lparr>Instances = [instance1 None []]\<rparr>]))
        (Some ''i-0001'') = None
   \<and> printForwards False None [(''ci-1'', \<lparr>ports = [(80, 32768)],
            byHostPort = [(32768, \<lparr>containerName = ''web'', legend_containerPort = 80\<rparr>)],
            instanceId = Some ''i-0001'', ipAddress = None\<rparr>)] [\<lparr>Instances = [instance1 None []]\<rparr>]
       = Inr [''ssh -L49152:localhost:32768 ec2-user@undefined'',
              ''32768'' @ [CHR 0x09] @ ''web:80'']
   \<and> PublicIpAddress (instance1 (Some []) []) = Some []
   \<and> getIp (setAll InstanceId PublicIpAddress []
               (allInstances [\<lparr>Instances = [instance1 (Some []) []]\<rparr>]))
        (Some ''i-0001'') = Some []
   \<and> printForwards False None [(''ci-1'', \<lparr>ports = [(80, 32768)],
            byHostPort = [(32768, \<lparr>containerName = ''web'', legend_containerPort = 80\<rparr>)],
            instanceId = Some ''i-0001'', ipAddress = None\<rparr>)] [\<lparr>Instances = [instance1 (Some []) []]\<rparr>]
       = Inr [''ssh -L49152:localhost:32768 ec2-user@'', ''32768'' @ [CHR 0x09] @ ''web:80'']
   \<and> forwards (one_instance (Some []) []) ''svc-A'' None None None False None
       = Inr [''ssh -L49152:localhost:32768 ec2-user@'', ''32768'' @ [CHR 0x09] @ ''web:80'']"
proof -
  let ?g = "[(''ci-1'', \<lparr>ports = [(80, 32768)],
            byHostPort = [(32768, \<lparr>containerName = ''web'', legend_containerPort = 80\<rparr>)],
            instanceId = Some ''i-0001'', ipAddress = None\<rparr>)]"
  let ?missing = "[\<lparr>Instances = [instance1 None []]\<rparr>]"
  let ?empty = "[\<lparr>Instances = [instance1 (Some []) []]\<rparr>]"
  have m: "\<forall>i\<in>set (allInstances ?missing). InstanceId i = ''i-0001'' \<longrightarrow> PublicIpAddress i = None"
    by (simp add: allInstances_def instance1_def)
  have e: "(\<exists>i\<in>set (allInstances ?empty). InstanceId i = ''i-0001'')
      \<and> (\<forall>i\<in>set (allInstances ?empty). InstanceId i = ''i-0001'' \<longrightarrow> PublicIpAddress i = Some [])"
    by (simp add: allInstances_def instance1_def)
  have u: "hostGroups_of (one_instance (Some []) []) ''svc-A'' None None None = Inr (?g, ?empty)"
    by (simp add: chain_defs example_defs one_instance_def)
  note t1 = ipv4_never_fails [of ?missing None ?g _ _ _ _ _ _ _ _ _ "''i-0001''"]
  note t2 = ipv4_never_fails [of ?empty None ?g "one_instance (Some []) []" "''svc-A''" None None None
      _ _ _ _ "''i-0001''"]
  from t1 m have a1: "getIp (setAll InstanceId PublicIpAddress [] (allInstances ?missing))
        (Some ''i-0001'') = None"
    by blast
  from t2 e have a2: "getIp (setAll InstanceId PublicIpAddress [] (allInstances ?empty))
        (Some ''i-0001'') = Some []"
    by blast
  from t1 have "printForwards False None ?g ?missing =
       Inr (concat (map2 (block (setAll InstanceId PublicIpAddress [] (allInstances ?missing))) ?g
              (numbering (firstPort None) ?g)))"
    by blast
  then have p1: "printForwards False None ?g ?missing
       = Inr [''ssh -L49152:localhost:32768 ec2-user@undefined'',
              ''32768'' @ [CHR 0x09] @ ''web:80'']"
    by (simp add: block_def a1 sshLine_def legendLine_def clause_def firstPort_def
          truthy_number_def string_of_value_def digit_char_def Map_values_def)
  from t2 have "printForwards False None ?g ?empty =
       Inr (concat (map2 (block (setAll InstanceId PublicIpAddress [] (allInstances ?empty))) ?g
              (numbering (firstPort None) ?g)))"
    by blast
  then have p2: "printForwards False None ?g ?empty
       = Inr [''ssh -L49152:localhost:32768 ec2-user@'', ''32768'' @ [CHR 0x09] @ ''web:80'']"
    by (simp add: block_def a2 sshLine_def legendLine_def clause_def firstPort_def
          truthy_number_def string_of_value_def digit_char_def Map_values_def)
  from t2 u have "forwards (one_instance (Some []) []) ''svc-A'' None None None False None
       = printForwards False None ?g ?empty"
    by blast
  with p2 have f2: "forwards (one_instance (Some []) []) ''svc-A'' None None None False None
       = Inr [''ssh -L49152:localhost:32768 ec2-user@'', ''32768'' @ [CHR 0x09] @ ''web:80'']"
    by simp
  from a1 a2 p1 p2 f2 show ?thesis by (simp add: instance1_def)
qed

text \<open>
  Claim C6 as stated fails for an instance without a public address: the run completes,
  but the address printed after \<open>ec2-user@\<close> is the text \<open>undefined\<close>, not the
  empty string.
\<close>

theorem ipv4_missing_address_counterexample:
  "PublicIpAddress (instance1 None []) = None
   \<and> forwards (one_instance None []) ''svc-A'' None None None False None =
       Inr [''ssh -L49152:localhost:32768 ec2-user@undefined'', ''32768'' @ [CHR 0x09] @ ''web:80'']
   \<and> forwards_index (one_instance None []) ''svc-A'' None None None False =
       Inr [''ssh -L49152:localhost:32768 ec2-user@undefined'', ''32768'' @ [CHR 0x09] @ ''web:80'']
   \<and> ''ssh -L49152:localhost:32768 ec2-user@undefined'' \<noteq> ''ssh -L49152:localhost:32768 ec2-user@''"
  by (simp add: chain_defs example_defs one_instance_def)

end
